theory Spec2Isabelle
  imports Main
begin

section \<open>The ECMAScript Date operations the handler uses\<close>

text \<open>
  A \<^verbatim>\<open>Date\<close> is its time value: an integer number of milliseconds since
  1970-01-01T00:00:00Z of absolute value at most \<open>8.64e15\<close>, or \<^verbatim>\<open>NaN\<close>, the
  invalid date (\<open>None\<close>). Every operation that writes a date ends with
  \<^verbatim>\<open>TimeClip\<close> of ECMA-262, which makes a time value outside that range the invalid
  date; an operation on the invalid date leaves it invalid, and an accessor of the invalid
  date returns \<^verbatim>\<open>NaN\<close> (\<open>None\<close>).

  The handler reads and writes dates through the local-time accessors
  \<^verbatim>\<open>getHours\<close>, \<^verbatim>\<open>getMinutes\<close>, \<^verbatim>\<open>getDay\<close>, \<^verbatim>\<open>setHours\<close> and
  \<^verbatim>\<open>setDate\<close>. The function runs on AWS Lambda, whose local time zone is UTC (the
  stack sets no \<^verbatim>\<open>TZ\<close>), so local time is UTC and a day always has \<open>86400000\<close>
  milliseconds. The definitions follow ECMA-262: \<open>Day(t) = floor(t / msPerDay)\<close>,
  \<open>HourFromTime(t) = floor(t / msPerHour) mod 24\<close>, \<open>WeekDay(t) = (Day(t) + 4) mod 7\<close>;
  \<open>div\<close> and \<open>mod\<close> on \<open>int\<close> round towards minus infinity, as ECMA-262 asks.
\<close>

type_synonym Date = "int option"

definition msPerDay :: int where
  "msPerDay = 86400000"

definition maxTime :: int where
  "maxTime = 8640000000000000"

definition TimeClip :: "int \<Rightarrow> Date" where
  "TimeClip t = (if \<bar>t\<bar> > maxTime then None else Some t)"

definition getHours :: "Date \<Rightarrow> int option" where
  "getHours d = (case d of None \<Rightarrow> None | Some t \<Rightarrow> Some ((t div 3600000) mod 24))"

definition getMinutes :: "Date \<Rightarrow> int option" where
  "getMinutes d = (case d of None \<Rightarrow> None | Some t \<Rightarrow> Some ((t div 60000) mod 60))"

definition getSeconds :: "Date \<Rightarrow> int option" where
  "getSeconds d = (case d of None \<Rightarrow> None | Some t \<Rightarrow> Some ((t div 1000) mod 60))"

text \<open>\<^verbatim>\<open>getDay()\<close>: 0 is Sunday, 1 Monday, ..., 6 Saturday; 1970-01-01 was a Thursday.\<close>

definition getDay :: "Date \<Rightarrow> int option" where
  "getDay d = (case d of None \<Rightarrow> None | Some t \<Rightarrow> Some ((t div msPerDay + 4) mod 7))"

text \<open>\<^verbatim>\<open>d.setHours(0, 0, 0, 0)\<close>: the start of the calendar day of \<open>d\<close>.\<close>

definition setHours0 :: "Date \<Rightarrow> Date" where
  "setHours0 d = (case d of None \<Rightarrow> None | Some t \<Rightarrow> TimeClip (t - t mod msPerDay))"

text \<open>
  \<^verbatim>\<open>d.setDate(d.getDate() + n)\<close>: ECMA-262 computes
  \<open>TimeClip(MakeDate(MakeDay(year, month, date + n), TimeWithinDay(t)))\<close>, and a day of
  the month past either end of the month carries over, so the result is the same time of
  day \<open>n\<close> days later, when that is in the range of \<^verbatim>\<open>Date\<close>.
\<close>

definition addDate :: "Date \<Rightarrow> int \<Rightarrow> Date" where
  "addDate d n = (case d of None \<Rightarrow> None | Some t \<Rightarrow> TimeClip (t + n * msPerDay))"

text \<open>
  The comparisons \<^verbatim>\<open>a < b\<close>, \<^verbatim>\<open>a > b\<close> and \<^verbatim>\<open>a <= b\<close> of two dates compare
  the time values; a comparison with \<^verbatim>\<open>NaN\<close> is false.
\<close>

definition Date_less :: "Date \<Rightarrow> Date \<Rightarrow> bool" where
  "Date_less a b = (case (a, b) of (Some x, Some y) \<Rightarrow> x < y | _ \<Rightarrow> False)"

definition Date_greater :: "Date \<Rightarrow> Date \<Rightarrow> bool" where
  "Date_greater a b = (case (a, b) of (Some x, Some y) \<Rightarrow> x > y | _ \<Rightarrow> False)"

definition Date_le :: "Date \<Rightarrow> Date \<Rightarrow> bool" where
  "Date_le a b = (case (a, b) of (Some x, Some y) \<Rightarrow> x \<le> y | _ \<Rightarrow> False)"

section \<open>The publication window of the handler\<close>

text \<open>
  \<^verbatim>\<open>
  const latestPubDate = new Date(executedDate);
  if (latestPubDate.getHours() != 0 || latestPubDate.getMinutes() != 0) {
    latestPubDate.setHours(0, 0, 0, 0);
    latestPubDate.setDate(latestPubDate.getDate() + 1);
  }
  const oldestPubDate = new Date(latestPubDate);
  oldestPubDate.setDate(oldestPubDate.getDate() - 1);
  \<close>
  \<^verbatim>\<open>NaN != 0\<close> is true.
\<close>

definition latestPubDate_init :: "Date \<Rightarrow> Date" where
  "latestPubDate_init executedDate =
     (if getHours executedDate \<noteq> Some 0 \<or> getMinutes executedDate \<noteq> Some 0
      then addDate (setHours0 executedDate) 1
      else executedDate)"

definition oldestPubDate_init :: "Date \<Rightarrow> Date" where
  "oldestPubDate_init executedDate = addDate (latestPubDate_init executedDate) (- 1)"

text \<open>
  \<^verbatim>\<open>
  switch (latestPubDate.getDay()) {
    case 6: latestPubDate.setDate(latestPubDate.getDate() + 2); break;
    case 0: latestPubDate.setDate(latestPubDate.getDate() + 1);
            oldestPubDate.setDate(oldestPubDate.getDate() - 1); break;
    case 1: oldestPubDate.setDate(oldestPubDate.getDate() - 2); break;
    default: break;
  };
  \<close>
  The pair is \<open>(oldestPubDate, latestPubDate)\<close>. \<^verbatim>\<open>NaN\<close> matches no case.
\<close>

definition weekdayCorrection :: "Date \<Rightarrow> Date \<Rightarrow> Date \<times> Date" where
  "weekdayCorrection oldestPubDate latestPubDate =
     (if getDay latestPubDate = Some 6 then (oldestPubDate, addDate latestPubDate 2)
      else if getDay latestPubDate = Some 0
      then (addDate oldestPubDate (- 1), addDate latestPubDate 1)
      else if getDay latestPubDate = Some 1 then (addDate oldestPubDate (- 2), latestPubDate)
      else (oldestPubDate, latestPubDate))"

definition pubDateWindow :: "Date \<Rightarrow> Date \<times> Date" where
  "pubDateWindow executedDate =
     weekdayCorrection (oldestPubDate_init executedDate) (latestPubDate_init executedDate)"

text \<open>
  The normalization of \<open>latest\<close> in the words of the specification, to compare the
  handler with: the execution time truncated to the start of its calendar day and, if
  the execution time was not already the start of the day, advanced by one day.
\<close>

definition spec_normalizedLatest :: "int \<Rightarrow> int" where
  "spec_normalizedLatest executionTime =
     (let startOfDay = executionTime - executionTime mod msPerDay
      in if executionTime = startOfDay then startOfDay else startOfDay + msPerDay)"

section \<open>Strings and arrays of the JavaScript runtime\<close>

text \<open>
  Strings are lists of bytes (UTF-8 for the two Japanese literals of the handler). The
  separators and patterns the handler passes are ASCII.
\<close>

text \<open>\<^verbatim>\<open>a || b\<close> on a \<^verbatim>\<open>string | undefined\<close>: \<^verbatim>\<open>undefined\<close> and the empty string are falsy.\<close>

definition or_else :: "string option \<Rightarrow> string \<Rightarrow> string" where
  "or_else a b = (case a of None \<Rightarrow> b | Some s \<Rightarrow> if s = [] then b else s)"

text \<open>
  \<^verbatim>\<open>s.split(sep)\<close> for a separator of one character: the pieces between the
  separators, in order; \<^verbatim>\<open>''.split(',')\<close> is \<^verbatim>\<open>['']\<close>.
\<close>

fun split :: "char \<Rightarrow> string \<Rightarrow> string list" where
  "split sep [] = [[]]"
| "split sep (c # cs) =
     (if c = sep then [] # split sep cs
      else (case split sep cs of
              [] \<Rightarrow> [[c]]
            | w # ws \<Rightarrow> (c # w) # ws))"

text \<open>\<^verbatim>\<open>s.startsWith(p)\<close>.\<close>

definition startsWith :: "string \<Rightarrow> string \<Rightarrow> bool" where
  "startsWith s p = (take (length p) s = p)"

text \<open>
  \<^verbatim>\<open>s.replace(pattern, replacement)\<close> with a string pattern: the leftmost occurrence
  of the pattern is replaced, the rest of the string is kept.
\<close>

fun replace :: "string \<Rightarrow> string \<Rightarrow> string \<Rightarrow> string" where
  "replace [] pattern replacement = (if pattern = [] then replacement else [])"
| "replace (c # cs) pattern replacement =
     (if startsWith (c # cs) pattern then replacement @ drop (length pattern) (c # cs)
      else c # replace cs pattern replacement)"

text \<open>
  \<^verbatim>\<open>Array.from(new Set(xs))\<close>: a \<^verbatim>\<open>Set\<close> keeps its members in insertion order and
  ignores the insertion of a member it already has.
\<close>

definition Set_add :: "string list \<Rightarrow> string \<Rightarrow> string list" where
  "Set_add s x = (if x \<in> set s then s else s @ [x])"

definition Array_from_Set :: "string list \<Rightarrow> string list" where
  "Array_from_Set xs = foldl Set_add [] xs"

text \<open>\<^verbatim>\<open>xs.toString()\<close> of an array of strings: the members joined by commas.\<close>

fun Array_toString :: "string list \<Rightarrow> string" where
  "Array_toString [] = []"
| "Array_toString [x] = x"
| "Array_toString (x # y # ys) = x @ '','' @ Array_toString (y # ys)"

section \<open>Data of the handler\<close>

datatype error = Error string

text \<open>
  An entry of a feed, as \<^verbatim>\<open>rss-parser\<close> returns it. The handler reads
  \<^verbatim>\<open>title\<close>, \<^verbatim>\<open>link\<close> and \<^verbatim>\<open>contentSnippet\<close> as strings (it asserts them with
  \<^verbatim>\<open>!\<close>); \<^verbatim>\<open>pubDate\<close> and \<^verbatim>\<open>categories\<close> may be \<^verbatim>\<open>undefined\<close>.
\<close>

record item =
  item_title :: string
  item_link :: string
  item_pubDate :: "string option"
  item_contentSnippet :: string
  item_categories :: "string list option"

record feed =
  feed_title :: string
  feed_items :: "item list"

text \<open>The members of \<^verbatim>\<open>contentData\<close>: a titled group of items, and one with a link.\<close>

record channel =
  channel_title :: string
  channel_items :: "item list"

record repo =
  repo_title :: string
  repo_link :: string
  repo_items :: "item list"

record contentData =
  announcements :: "item list"
  youtube :: "channel list"
  blogs :: "channel list"
  oss :: "repo list"

text \<open>
  The calls made on the \<^verbatim>\<open>markdown-doc-builder\<close> builder, in order; its
  \<^verbatim>\<open>toMarkdown()\<close> serialises them.
\<close>

datatype md =
  HeaderOrdered bool
  | Text string
  | Newline
  | H3 string
  | H4 string
  | Bold string
  | BlockQuote string

record frontMatter =
  fm_draft :: bool
  fm_isCJKLanguage :: bool
  fm_title :: string
  fm_description :: string
  fm_date :: string
  fm_lastmod :: string
  fm_categories :: "string list"
  fm_series :: "string list"
  fm_tags :: "string list"

record PutObjectCommand =
  Bucket :: string
  Key :: string
  Body :: "md list"
  ContentType :: string
  Metadata :: "(string \<times> string) list"

text \<open>The input of the handler, and the payload it returns.\<close>

record Event =
  event_lang :: string
  event_time :: string
  event_isDraft :: bool

record CreateThumbnailInputPayload =
  payload_lang :: string
  payload_title :: string
  payload_description :: string
  payload_pubDateRange :: string
  payload_urlPath :: string

text \<open>
  \<^verbatim>\<open>source\<close> of \<^verbatim>\<open>./config\<close>, which is not among the sources: it is a parameter,
  with the fields the handler reads.
\<close>

record playlist =
  playlist_id :: string
  playlist_title_ja :: string
  playlist_title_en :: string

record japanBlog =
  japanBlog_category :: string
  japanBlog_title_ja :: string
  japanBlog_title_en :: string

record awsBlog =
  awsBlog_category :: string

record githubRepo =
  githubRepo_name :: string
  githubRepo_title :: string

record source =
  youtube_playlists :: "playlist list"
  awsJapanBlogs :: "japanBlog list"
  awsBlogs :: "awsBlog list"
  githubRepos :: "githubRepo list"

text \<open>
  What the handler reads from its surroundings: the environment variables, the
  configuration, the clients of S3, Amazon Translate and the feed parser (each call
  either throws or returns), and the date and JSON formatting of the runtime.
  \<open>dateParse\<close> is \<^verbatim>\<open>Date.parse\<close>: \<open>None\<close> is \<^verbatim>\<open>NaN\<close>. \<open>toISOString\<close> is
  applied to the time value of a valid date only: on the invalid date
  \<^verbatim>\<open>toISOString()\<close> throws a \<^verbatim>\<open>RangeError\<close>, which the handler models.
  \<open>firstRejection\<close> is the scheduling of a batch of bluebird, see \<open>Promise_map\<close>.
  \<open>s3_headObject bucket key\<close> returns the \<^verbatim>\<open>Metadata\<close> of the response, which may
  be \<^verbatim>\<open>undefined\<close>. \<open>translateText text source target\<close> returns the
  \<^verbatim>\<open>TranslatedText\<close> of the response, which may be \<^verbatim>\<open>undefined\<close>.
\<close>

record env =
  bucketName :: string
  hugoContentPath :: string
  config :: source
  s3_headObject :: "string \<Rightarrow> string \<Rightarrow> error + (string \<rightharpoonup> string) option"
  s3_putObject :: "PutObjectCommand \<Rightarrow> error option"
  translateText :: "string \<Rightarrow> string \<Rightarrow> string \<Rightarrow> error + string option"
  parseURL :: "string \<Rightarrow> error + feed"
  dateParse :: "string \<Rightarrow> int option"
  toISOString :: "int \<Rightarrow> string"
  toLocaleString :: "Date \<Rightarrow> string \<Rightarrow> string \<Rightarrow> string"
  JSON_stringify :: "frontMatter \<Rightarrow> string"
  firstRejection :: "error list \<Rightarrow> error"

text \<open>
  What the handler changes: the lines written by \<^verbatim>\<open>console.error\<close> and the
  objects put to S3.
\<close>

record world =
  console :: "error list"
  s3_sent :: "PutObjectCommand list"

text \<open>
  An \<^verbatim>\<open>async\<close> computation: from the world to a rejection (\<open>Inl\<close>) or a value
  (\<open>Inr\<close>), and the world after it. \<open>await m f\<close> continues with the value of
  \<open>m\<close>, or rejects as \<open>m\<close> does.
\<close>

type_synonym 'a async = "world \<Rightarrow> (error + 'a) \<times> world"

definition resolve :: "'a \<Rightarrow> 'a async" where
  "resolve x w = (Inr x, w)"

definition settle :: "error + 'a \<Rightarrow> 'a async" where
  "settle r w = (r, w)"

definition await :: "'a async \<Rightarrow> ('a \<Rightarrow> 'b async) \<Rightarrow> 'b async" where
  "await m f w = (case m w of (Inl e, w') \<Rightarrow> (Inl e, w') | (Inr x, w') \<Rightarrow> f x w')"

section \<open>getMetadata, translate and getFeed\<close>

text \<open>
  \<^verbatim>\<open>
  try {
    const { Metadata } = await s3.send(cmd);
    const val = Metadata?.[metadataKey];
    return val;
  } catch (error) {
    return undefined;
  }
  \<close>
\<close>

definition getMetadata :: "env \<Rightarrow> string \<Rightarrow> string \<Rightarrow> string \<Rightarrow> string option" where
  "getMetadata e bucket key metadataKey =
     (case s3_headObject e bucket key of
        Inl err \<Rightarrow> None
      | Inr None \<Rightarrow> None
      | Inr (Some m) \<Rightarrow> m metadataKey)"

text \<open>
  \<^verbatim>\<open>
  const { TranslatedText } = await client.send(cmd);
  return TranslatedText || text;
  \<close>
  There is no \<^verbatim>\<open>try\<close>: when \<^verbatim>\<open>send\<close> throws, \<^verbatim>\<open>translate\<close> rejects.
\<close>

definition translate :: "env \<Rightarrow> string \<Rightarrow> string \<Rightarrow> string \<Rightarrow> error + string" where
  "translate e text sourceLanguageCode targetLanguageCode =
     (case translateText e text sourceLanguageCode targetLanguageCode of
        Inl err \<Rightarrow> Inl err
      | Inr TranslatedText \<Rightarrow> Inr (or_else TranslatedText text))"

text \<open>
  \<^verbatim>\<open>Promise.map(items, mapper, { concurrency: 5 })\<close> of bluebird: the promise of the
  mapped array, in the order of \<open>items\<close>, when every mapper call fulfils; when a call
  rejects it rejects, with the rejection that comes first in time. Which one that is
  depends on the order in which bluebird issues the calls (at most five in flight, the
  waiting ones taken from the end of its queue) and on the latencies of the service,
  which the model does not have: \<open>first\<close> chooses it, given the errors of the failing
  calls in the order of \<open>items\<close>. The services are functions of their arguments here,
  so the order of the calls does not change what a call returns.
\<close>

fun rejections :: "(error + 'b) list \<Rightarrow> error list" where
  "rejections [] = []"
| "rejections (Inl err # rs) = err # rejections rs"
| "rejections (Inr y # rs) = rejections rs"

fun fulfilments :: "(error + 'b) list \<Rightarrow> 'b list" where
  "fulfilments [] = []"
| "fulfilments (Inl err # rs) = fulfilments rs"
| "fulfilments (Inr y # rs) = y # fulfilments rs"

definition Promise_map ::
  "(error list \<Rightarrow> error) \<Rightarrow> ('a \<Rightarrow> error + 'b) \<Rightarrow> 'a list \<Rightarrow> error + 'b list" where
  "Promise_map first mapper xs =
     (let settled = map mapper xs
      in if rejections settled = [] then Inr (fulfilments settled)
         else Inl (first (rejections settled)))"

text \<open>
  The two batches of the handler. The mapper assigns the translation to the field of
  the item; the model returns the items after the assignments.
  \<^verbatim>\<open>
  await Promise.map(items,
    async (item) => { item.contentSnippet = await translate(item.contentSnippet!, 'en', lang); },
    { concurrency: 5 });
  await Promise.map(items,
    async (item) => { item.title = await translate(item.title!, src, lang); },
    { concurrency: 5 });
  \<close>
\<close>

definition translateContentSnippets :: "env \<Rightarrow> string \<Rightarrow> string \<Rightarrow> item list \<Rightarrow> error + item list" where
  "translateContentSnippets e src tgt items =
     Promise_map (firstRejection e)
       (\<lambda>item. case translate e (item_contentSnippet item) src tgt of
            Inl err \<Rightarrow> Inl err
          | Inr t \<Rightarrow> Inr (item\<lparr>item_contentSnippet := t\<rparr>))
       items"

definition translateTitles :: "env \<Rightarrow> string \<Rightarrow> string \<Rightarrow> item list \<Rightarrow> error + item list" where
  "translateTitles e src tgt items =
     Promise_map (firstRejection e)
       (\<lambda>item. case translate e (item_title item) src tgt of
            Inl err \<Rightarrow> Inl err
          | Inr t \<Rightarrow> Inr (item\<lparr>item_title := t\<rparr>))
       items"

text \<open>
  \<^verbatim>\<open>new Date(s)\<close> of a string, or of \<^verbatim>\<open>undefined\<close>: the time value
  \<^verbatim>\<open>Date.parse\<close> finds, clipped; \<^verbatim>\<open>new Date(undefined)\<close> is the invalid date.
\<close>

definition newDate :: "env \<Rightarrow> string option \<Rightarrow> Date" where
  "newDate e s =
     (case s of
        None \<Rightarrow> None
      | Some str \<Rightarrow> (case dateParse e str of None \<Rightarrow> None | Some t \<Rightarrow> TimeClip t))"

text \<open>
  \<^verbatim>\<open>const pubDate = new Date(item.pubDate!)\<close>, and the test of the filter of
  \<^verbatim>\<open>getFeed\<close>: \<^verbatim>\<open>pubDate > oldestPubDate && pubDate <= latestPubDate\<close>.
\<close>

definition pubDateOf :: "env \<Rightarrow> item \<Rightarrow> Date" where
  "pubDateOf e item = newDate e (item_pubDate item)"

definition inRange :: "env \<Rightarrow> Date \<Rightarrow> Date \<Rightarrow> item \<Rightarrow> bool" where
  "inRange e oldestPubDate latestPubDate item =
     (Date_greater (pubDateOf e item) oldestPubDate \<and> Date_le (pubDateOf e item) latestPubDate)"

text \<open>
  \<^verbatim>\<open>
  try {
    const feed = await parser.parseURL(feedUrl);
    feed.items = feed.items.filter((item) => { ... });
    return feed;
  } catch (err) {
    console.error(err);
    const feed = { title: 'error', items: [] };
    return feed;
  }
  \<close>
\<close>

definition getFeed :: "env \<Rightarrow> string \<Rightarrow> Date \<Rightarrow> Date \<Rightarrow> feed async" where
  "getFeed e feedUrl oldestPubDate latestPubDate w =
     (case parseURL e feedUrl of
        Inr feed \<Rightarrow>
          (Inr (feed\<lparr>feed_items := filter (inRange e oldestPubDate latestPubDate) (feed_items feed)\<rparr>), w)
      | Inl err \<Rightarrow>
          (Inr \<lparr>feed_title = ''error'', feed_items = []\<rparr>, w\<lparr>console := console w @ [err]\<rparr>))"

section \<open>The handler\<close>

text \<open>
  The product tags of one announcement:
  \<^verbatim>\<open>
  const categories = item.categories?.flatMap(x => x.split(',')) || [];
  const products = categories?.filter(x => x.startsWith('general:products/'))
                              .map(x => x.replace('general:products/', ''));
  frontMatter.tags.push(...products);
  \<close>
\<close>

definition products_prefix :: string where
  "products_prefix = ''general:products/''"

definition products :: "item \<Rightarrow> string list" where
  "products item =
     (let categories = (case item_categories item of
                          None \<Rightarrow> []
                        | Some cs \<Rightarrow> concat (map (split CHR '','') cs))
      in map (\<lambda>x. replace x products_prefix [])
           (filter (\<lambda>x. startsWith x products_prefix) categories))"

definition pushProducts :: "string list \<Rightarrow> item list \<Rightarrow> string list" where
  "pushProducts tags items = foldl (\<lambda>tags item. tags @ products item) tags items"

text \<open>
  The tags of the front matter: the pushes of the announcements block on the empty
  array, then \<^verbatim>\<open>frontMatter.tags = Array.from(new Set(frontMatter.tags))\<close>.
\<close>

definition aggregateTags :: "item list \<Rightarrow> string list" where
  "aggregateTags items = Array_from_Set (pushProducts [] items)"

text \<open>The announcements block: fetch, translate the snippets unless English, push the tags.\<close>

definition announcements_feedUrl :: string where
  "announcements_feedUrl = ''https://aws.amazon.com/new/feed/''"

definition fetchAnnouncements ::
  "env \<Rightarrow> string \<Rightarrow> Date \<Rightarrow> Date \<Rightarrow> (string list \<times> item list) async" where
  "fetchAnnouncements e lang oldestPubDate latestPubDate =
     await (getFeed e announcements_feedUrl oldestPubDate latestPubDate) (\<lambda>feed.
       await (settle (if lang \<noteq> ''en''
                      then translateContentSnippets e ''en'' lang (feed_items feed)
                      else Inr (feed_items feed))) (\<lambda>items.
         resolve (pushProducts [] items, items)))"

text \<open>\<^verbatim>\<open>for await (let x of xs) { ... }\<close>: the body runs on each member in order.\<close>

fun for_await :: "('a \<Rightarrow> 's \<Rightarrow> 's async) \<Rightarrow> 'a list \<Rightarrow> 's \<Rightarrow> 's async" where
  "for_await body [] s = resolve s"
| "for_await body (x # xs) s = await (body x s) (\<lambda>s'. for_await body xs s')"

text \<open>
  \<^verbatim>\<open>
  const playlistTitle = (lang == 'ja') ? playlist.title.ja : playlist.title.en;
  const feedUrl = `https://www.youtube.com/feeds/videos.xml?playlist_id=${playlist.id}`;
  const { items } = await getFeed(feedUrl, oldestPubDate, latestPubDate);
  if (items.length > 0) {
    if (lang != 'ja') { await Promise.map(items, ... translate(item.title!, 'ja', lang) ...); }
    data.youtube.push({ title: `${playlistTitle}`, items });
  }
  \<close>
\<close>

definition playlistTitle :: "string \<Rightarrow> playlist \<Rightarrow> string" where
  "playlistTitle lang playlist =
     (if lang = ''ja'' then playlist_title_ja playlist else playlist_title_en playlist)"

definition playlist_feedUrl :: "playlist \<Rightarrow> string" where
  "playlist_feedUrl playlist =
     ''https://www.youtube.com/feeds/videos.xml?playlist_id='' @ playlist_id playlist"

definition playlist_body ::
  "env \<Rightarrow> string \<Rightarrow> Date \<Rightarrow> Date \<Rightarrow> playlist \<Rightarrow> channel list \<Rightarrow> channel list async" where
  "playlist_body e lang oldestPubDate latestPubDate playlist data_youtube =
     await (getFeed e (playlist_feedUrl playlist) oldestPubDate latestPubDate) (\<lambda>feed.
       if length (feed_items feed) > 0
       then await (settle (if lang \<noteq> ''ja''
                           then translateTitles e ''ja'' lang (feed_items feed)
                           else Inr (feed_items feed))) (\<lambda>items.
              resolve (data_youtube @
                [\<lparr>channel_title = playlistTitle lang playlist, channel_items = items\<rparr>]))
       else resolve data_youtube)"

text \<open>The blogs of AWS Japan: as the playlists, on \<^verbatim>\<open>data.blogs\<close>.\<close>

definition japanBlogTitle :: "string \<Rightarrow> japanBlog \<Rightarrow> string" where
  "japanBlogTitle lang blog =
     (if lang = ''ja'' then japanBlog_title_ja blog else japanBlog_title_en blog)"

definition japanBlog_feedUrl :: "japanBlog \<Rightarrow> string" where
  "japanBlog_feedUrl blog =
     ''https://aws.amazon.com/jp/blogs/'' @ japanBlog_category blog @ ''/feed/''"

definition japanBlog_body ::
  "env \<Rightarrow> string \<Rightarrow> Date \<Rightarrow> Date \<Rightarrow> japanBlog \<Rightarrow> channel list \<Rightarrow> channel list async" where
  "japanBlog_body e lang oldestPubDate latestPubDate blog data_blogs =
     await (getFeed e (japanBlog_feedUrl blog) oldestPubDate latestPubDate) (\<lambda>feed.
       if length (feed_items feed) > 0
       then await (settle (if lang \<noteq> ''ja''
                           then translateTitles e ''ja'' lang (feed_items feed)
                           else Inr (feed_items feed))) (\<lambda>items.
              resolve (data_blogs @
                [\<lparr>channel_title = japanBlogTitle lang blog, channel_items = items\<rparr>]))
       else resolve data_blogs)"

text \<open>
  The blogs of AWS: the title is the feed's, the titles of the items are translated
  from English.
  \<^verbatim>\<open>
  const feedUrl = `https://aws.amazon.com/blogs/${blog.category}/feed/`;
  const { title: blogTitle, items } = await getFeed(feedUrl, oldestPubDate, latestPubDate);
  if (items.length > 0) {
    if (lang != 'en') { await Promise.map(items, ... translate(item.title!, 'en', lang) ...); }
    data.blogs.push({ title: `${blogTitle}`, items });
  }
  \<close>
\<close>

definition awsBlog_feedUrl :: "awsBlog \<Rightarrow> string" where
  "awsBlog_feedUrl blog = ''https://aws.amazon.com/blogs/'' @ awsBlog_category blog @ ''/feed/''"

definition awsBlog_body ::
  "env \<Rightarrow> string \<Rightarrow> Date \<Rightarrow> Date \<Rightarrow> awsBlog \<Rightarrow> channel list \<Rightarrow> channel list async" where
  "awsBlog_body e lang oldestPubDate latestPubDate blog data_blogs =
     await (getFeed e (awsBlog_feedUrl blog) oldestPubDate latestPubDate) (\<lambda>feed.
       if length (feed_items feed) > 0
       then await (settle (if lang \<noteq> ''en''
                           then translateTitles e ''en'' lang (feed_items feed)
                           else Inr (feed_items feed))) (\<lambda>items.
              resolve (data_blogs @
                [\<lparr>channel_title = feed_title feed, channel_items = items\<rparr>]))
       else resolve data_blogs)"

text \<open>
  \<^verbatim>\<open>
  const repoUrl = `https://github.com/${repo.name}/`;
  const feedUrl = `https://github.com/${repo.name}/releases.atom`;
  const { items } = await getFeed(feedUrl, oldestPubDate, latestPubDate);
  if (items.length > 0) { data.oss.push({ title: repo.title, link: repoUrl, items }); }
  \<close>
\<close>

definition githubRepo_feedUrl :: "githubRepo \<Rightarrow> string" where
  "githubRepo_feedUrl r = ''https://github.com/'' @ githubRepo_name r @ ''/releases.atom''"

definition githubRepo_body ::
  "env \<Rightarrow> Date \<Rightarrow> Date \<Rightarrow> githubRepo \<Rightarrow> repo list \<Rightarrow> repo list async" where
  "githubRepo_body e oldestPubDate latestPubDate r data_oss =
     await (getFeed e (githubRepo_feedUrl r) oldestPubDate latestPubDate) (\<lambda>feed.
       if length (feed_items feed) > 0
       then resolve (data_oss @
              [\<lparr>repo_title = githubRepo_title r,
                repo_link = ''https://github.com/'' @ githubRepo_name r @ ''/'',
                repo_items = feed_items feed\<rparr>])
       else resolve data_oss)"

text \<open>
  The fetches of the handler in their order: the announcements, the playlists, the
  blogs of AWS Japan, the blogs of AWS, the repositories. The result is the pushed
  tags and \<^verbatim>\<open>data\<close>.
\<close>

definition collect ::
  "env \<Rightarrow> string \<Rightarrow> Date \<Rightarrow> Date \<Rightarrow> (string list \<times> contentData) async" where
  "collect e lang oldestPubDate latestPubDate =
     await (fetchAnnouncements e lang oldestPubDate latestPubDate) (\<lambda>(tags, items).
     await (for_await (playlist_body e lang oldestPubDate latestPubDate)
              (youtube_playlists (config e)) []) (\<lambda>data_youtube.
     await (for_await (japanBlog_body e lang oldestPubDate latestPubDate)
              (awsJapanBlogs (config e)) []) (\<lambda>data_blogs.
     await (for_await (awsBlog_body e lang oldestPubDate latestPubDate)
              (awsBlogs (config e)) data_blogs) (\<lambda>data_blogs.
     await (for_await (githubRepo_body e oldestPubDate latestPubDate)
              (githubRepos (config e)) []) (\<lambda>data_oss.
       resolve (tags,
         \<lparr>announcements = items, youtube = data_youtube,
          blogs = data_blogs, oss = data_oss\<rparr>))))))"

text \<open>The body: the calls on the builder from \<^verbatim>\<open>markdown.newBuilder()\<close> on.\<close>

definition announcementsHeader :: "string \<Rightarrow> string" where
  "announcementsHeader lang =
     (if lang = ''ja''
      then [CHR 0xE6, CHR 0x9C, CHR 0x80, CHR 0xE8, CHR 0xBF, CHR 0x91, CHR 0xE3, CHR 0x81,
            CHR 0xAE, CHR 0xE7, CHR 0x99, CHR 0xBA, CHR 0xE8, CHR 0xA1, CHR 0xA8]
      else ''Recent Announcements'')"

definition md_announcements :: "string \<Rightarrow> item list \<Rightarrow> md list" where
  "md_announcements lang items =
     H3 (announcementsHeader lang) #
     (if length items > 0
      then concat (map (\<lambda>item.
             [Bold (''['' @ item_title item @ '']('' @ item_link item @ '')''), Newline,
              BlockQuote (item_contentSnippet item)]) items)
      else [Text ''No updates.'', Newline])"

definition md_item :: "item \<Rightarrow> md list" where
  "md_item item = [Text (''- ['' @ item_title item @ '']('' @ item_link item @ '')''), Newline]"

definition md_youtube :: "channel list \<Rightarrow> md list" where
  "md_youtube data_youtube =
     (if length data_youtube > 0
      then H3 ''YouTube'' #
           concat (map (\<lambda>c. H4 (channel_title c) # concat (map md_item (channel_items c)))
             data_youtube)
      else [])"

definition md_blogs :: "channel list \<Rightarrow> md list" where
  "md_blogs data_blogs =
     (if length data_blogs > 0
      then H3 ''AWS Blogs'' #
           concat (map (\<lambda>b. H4 (channel_title b) # Newline # concat (map md_item (channel_items b)))
             data_blogs)
      else [])"

definition md_oss :: "repo list \<Rightarrow> md list" where
  "md_oss data_oss =
     (if length data_oss > 0
      then H3 ''Open Source Project'' #
           concat (map (\<lambda>r. H4 (repo_title r) # concat (map md_item (repo_items r))) data_oss)
      else [])"

definition mdBody :: "env \<Rightarrow> string \<Rightarrow> frontMatter \<Rightarrow> string \<Rightarrow> contentData \<Rightarrow> md list" where
  "mdBody e lang fm pubDateRange data =
     [HeaderOrdered False, Text (JSON_stringify e fm), Newline, Text pubDateRange, Newline] @
     md_announcements lang (announcements data) @
     md_youtube (youtube data) @
     md_blogs (blogs data) @
     md_oss (oss data)"

text \<open>
  The strings the handler derives from the window and the language.
  \<^verbatim>\<open>toLocaleString\<close> is applied to dates that may be invalid;
  \<^verbatim>\<open>oldestPubDate.toISOString()\<close> and \<^verbatim>\<open>executedDate.toISOString()\<close> are
  applied to the time values, after the handler has found the dates valid.
\<close>

definition pubDateRange :: "env \<Rightarrow> string \<Rightarrow> Date \<Rightarrow> Date \<Rightarrow> string" where
  "pubDateRange e lang oldestPubDate latestPubDate =
     (if lang = ''ja''
      then toLocaleString e oldestPubDate ''ja-JP'' ''Asia/Tokyo'' @ '' ~ '' @
           toLocaleString e latestPubDate ''ja-JP'' ''Asia/Tokyo'' @ '' (JST)''
      else toLocaleString e oldestPubDate ''en-US'' ''UCT'' @ '' ~ '' @
           toLocaleString e latestPubDate ''en-US'' ''UTC'' @ '' (UTC)'')"

definition articleTitle :: "env \<Rightarrow> int \<Rightarrow> string" where
  "articleTitle e oldestPubDate =
     (case split CHR ''T'' (toISOString e oldestPubDate) of [] \<Rightarrow> [] | x # _ \<Rightarrow> x)"

definition articleDescription :: "string \<Rightarrow> string" where
  "articleDescription lang =
     (if lang = ''ja''
      then [CHR 0x41, CHR 0x57, CHR 0x53, CHR 0xE9, CHR 0x96, CHR 0xA2, CHR 0xE9, CHR 0x80,
            CHR 0xA3, CHR 0xE3, CHR 0x81, CHR 0xAE, CHR 0xE3, CHR 0x83, CHR 0x8B, CHR 0xE3,
            CHR 0x83, CHR 0xA5, CHR 0xE3, CHR 0x83, CHR 0xBC, CHR 0xE3, CHR 0x82, CHR 0xB9,
            CHR 0xE3, CHR 0x83, CHR 0x98, CHR 0xE3, CHR 0x83, CHR 0x83, CHR 0xE3, CHR 0x83,
            CHR 0x89, CHR 0xE3, CHR 0x83, CHR 0xA9, CHR 0xE3, CHR 0x82, CHR 0xA4, CHR 0xE3,
            CHR 0x83, CHR 0xB3]
      else ''AWS News Headlines'')"

text \<open>\<^verbatim>\<open>`headlines/${articleTitle.replace(/-/g, '')}`\<close>: every hyphen is removed.\<close>

definition urlPath :: "env \<Rightarrow> int \<Rightarrow> string" where
  "urlPath e oldestPubDate =
     ''headlines/'' @ filter (\<lambda>c. c \<noteq> CHR ''-'') (articleTitle e oldestPubDate)"

definition objectKey :: "env \<Rightarrow> string \<Rightarrow> int \<Rightarrow> string" where
  "objectKey e lang oldestPubDate =
     hugoContentPath e @ ''/'' @ urlPath e oldestPubDate @ ''/index.'' @ lang @ ''.md''"

text \<open>
  The front matter as the handler first builds it.
  \<^verbatim>\<open>
  date: await getMetadata(bucketName, objectKey, 'date') || executedDate.toISOString(),
  \<close>
\<close>

definition frontMatter_date :: "env \<Rightarrow> string \<Rightarrow> int \<Rightarrow> string" where
  "frontMatter_date e key executedDate =
     or_else (getMetadata e (bucketName e) key ''date'') (toISOString e executedDate)"

definition frontMatter_init :: "env \<Rightarrow> Event \<Rightarrow> int \<Rightarrow> int \<Rightarrow> frontMatter" where
  "frontMatter_init e event executedDate oldestPubDate =
     \<lparr>fm_draft = event_isDraft event,
      fm_isCJKLanguage = (if event_lang event = ''ja'' then True else False),
      fm_title = articleTitle e oldestPubDate,
      fm_description = articleDescription (event_lang event),
      fm_date = frontMatter_date e (objectKey e (event_lang event) oldestPubDate) executedDate,
      fm_lastmod = toISOString e executedDate,
      fm_categories = [''news''],
      fm_series = [''daily-aws''],
      fm_tags = []\<rparr>"

definition putObjectCommand :: "env \<Rightarrow> string \<Rightarrow> frontMatter \<Rightarrow> md list \<Rightarrow> PutObjectCommand" where
  "putObjectCommand e key fm body =
     \<lparr>Bucket = bucketName e,
      Key = key,
      Body = body,
      ContentType = ''text/markdown; charset=UTF-8'',
      Metadata =
        [(''draft'', if fm_draft fm then ''true'' else ''false''),
         (''date'', fm_date fm),
         (''lastmod'', fm_lastmod fm),
         (''categories'', Array_toString (fm_categories fm)),
         (''series'', Array_toString (fm_series fm)),
         (''tags'', Array_toString (fm_tags fm))]\<rparr>"

text \<open>\<^verbatim>\<open>await s3.send(putObjectCommand)\<close>.\<close>

definition s3_send :: "env \<Rightarrow> PutObjectCommand \<Rightarrow> unit async" where
  "s3_send e cmd w =
     (case s3_putObject e cmd of
        Some err \<Rightarrow> (Inl err, w)
      | None \<Rightarrow> (Inr (), w\<lparr>s3_sent := s3_sent w @ [cmd]\<rparr>))"

text \<open>
  The handler. The dates are computed first and nothing in that throws.
  \<^verbatim>\<open>oldestPubDate.toISOString()\<close>, for the title of the article, throws a
  \<^verbatim>\<open>RangeError\<close> when \<open>oldestPubDate\<close> is the invalid date, before any call goes
  out; so does \<^verbatim>\<open>executedDate.toISOString()\<close> for \<open>lastmod\<close> of the front matter
  (an invalid \<open>executedDate\<close> makes \<open>oldestPubDate\<close> invalid, so the first one throws
  then). \<open>latestPubDate\<close> is only formatted and compared, and may be invalid.
\<close>

definition handler :: "env \<Rightarrow> Event \<Rightarrow> CreateThumbnailInputPayload async" where
  "handler e event w =
     (let executedDate = newDate e (Some (event_time event));
          (oldestPubDate, latestPubDate) = pubDateWindow executedDate;
          rangeText = pubDateRange e (event_lang event) oldestPubDate latestPubDate
      in case oldestPubDate of
           None \<Rightarrow> (Inl (Error ''RangeError: Invalid time value''), w)
         | Some oldest \<Rightarrow>
             (case executedDate of
                None \<Rightarrow> (Inl (Error ''RangeError: Invalid time value''), w)
              | Some executed \<Rightarrow>
                  (let key = objectKey e (event_lang event) oldest;
                       frontMatter = frontMatter_init e event executed oldest
                   in await (collect e (event_lang event) oldestPubDate latestPubDate)
                        (\<lambda>(tags, data).
                          let frontMatter = frontMatter\<lparr>fm_tags := Array_from_Set tags\<rparr>;
                              body = mdBody e (event_lang event) frontMatter rangeText data
                          in await (s3_send e (putObjectCommand e key frontMatter body)) (\<lambda>_.
                               resolve
                                 \<lparr>payload_lang = event_lang event,
                                  payload_title = articleTitle e oldest,
                                  payload_description = articleDescription (event_lang event),
                                  payload_pubDateRange = rangeText,
                                  payload_urlPath = urlPath e oldest\<rparr>)) w)))"

section \<open>Observations on a run\<close>

text \<open>
  The feed \<^verbatim>\<open>getFeed\<close> resolves to for a URL and a window (it does not depend on the
  world), and whether it has an item.
\<close>

definition fetched :: "env \<Rightarrow> string \<Rightarrow> Date \<Rightarrow> Date \<Rightarrow> feed" where
  "fetched e feedUrl oldestPubDate latestPubDate =
     (case fst (getFeed e feedUrl oldestPubDate latestPubDate \<lparr>console = [], s3_sent = []\<rparr>) of
        Inr feed \<Rightarrow> feed
      | Inl err \<Rightarrow> \<lparr>feed_title = [], feed_items = []\<rparr>)"

definition yields :: "env \<Rightarrow> Date \<Rightarrow> Date \<Rightarrow> string \<Rightarrow> bool" where
  "yields e oldestPubDate latestPubDate feedUrl =
     (feed_items (fetched e feedUrl oldestPubDate latestPubDate) \<noteq> [])"

text \<open>
  The headings of a body, in order, and the headings of a section with the given
  sub-headings: none when there is no sub-heading.
\<close>

fun is_heading :: "md \<Rightarrow> bool" where
  "is_heading (H3 s) = True"
| "is_heading (H4 s) = True"
| "is_heading m = False"

definition headings :: "md list \<Rightarrow> md list" where
  "headings body = filter is_heading body"

definition md_section :: "string \<Rightarrow> string list \<Rightarrow> md list" where
  "md_section name titles = (if titles = [] then [] else H3 name # map H4 titles)"

section \<open>An example run\<close>

text \<open>
  A run at 1970-01-06T22:00:00Z, a Tuesday: the window is from 1970-01-06T00:00:00Z
  (\<open>432000000\<close>) to 1970-01-07T00:00:00Z (\<open>518400000\<close>). The announcement feed
  has an item at each end of the window, one inside and one without a date; one blog
  has an item inside the window, one has none; the playlist and the repository cannot
  be fetched. The translation service fails on the text \<^verbatim>\<open>boom\<close>.
\<close>

definition example_old :: item where
  "example_old =
     \<lparr>item_title = ''Amazon EC2 adds an instance type'',
      item_link = ''https://aws.amazon.com/about-aws/whats-new/ec2'',
      item_pubDate = Some ''1970-01-06T00:00:00Z'',
      item_contentSnippet = ''An instance type is added.'',
      item_categories = Some [''general:products/amazon-ec2'']\<rparr>"

definition example_mid :: item where
  "example_mid =
     \<lparr>item_title = ''AWS Lambda in a new region'',
      item_link = ''https://aws.amazon.com/about-aws/whats-new/lambda'',
      item_pubDate = Some ''1970-01-06T12:00:00Z'',
      item_contentSnippet = ''Lambda reaches a region.'',
      item_categories =
        Some [''general:products/aws-lambda,marketing:marchitecture/compute'',
              ''general:products/amazon-ec2'']\<rparr>"

definition example_new :: item where
  "example_new =
     \<lparr>item_title = ''Amazon EC2 price change'',
      item_link = ''https://aws.amazon.com/about-aws/whats-new/price'',
      item_pubDate = Some ''1970-01-07T00:00:00Z'',
      item_contentSnippet = ''A price changes.'',
      item_categories = Some [''general:products/amazon-ec2'']\<rparr>"

definition example_undated :: item where
  "example_undated =
     \<lparr>item_title = ''No date'',
      item_link = ''https://aws.amazon.com/about-aws/whats-new/undated'',
      item_pubDate = None,
      item_contentSnippet = ''boom'',
      item_categories = None\<rparr>"

definition example_source :: source where
  "example_source =
     \<lparr>youtube_playlists =
        [\<lparr>playlist_id = ''PL1'', playlist_title_ja = ''Black Belt'', playlist_title_en = ''Black Belt (en)''\<rparr>],
      awsJapanBlogs = [],
      awsBlogs = [\<lparr>awsBlog_category = ''compute''\<rparr>, \<lparr>awsBlog_category = ''aws''\<rparr>],
      githubRepos = [\<lparr>githubRepo_name = ''aws/aws-cdk'', githubRepo_title = ''AWS CDK''\<rparr>]\<rparr>"

definition example_event :: Event where
  "example_event =
     \<lparr>event_lang = ''en'', event_time = ''1970-01-06T22:00:00Z'', event_isDraft = True\<rparr>"

definition example_env :: env where
  "example_env =
     \<lparr>bucketName = ''bucket'',
      hugoContentPath = ''hugo/content'',
      config = example_source,
      s3_headObject = (\<lambda>bucket key. Inl (Error ''NotFound'')),
      s3_putObject = (\<lambda>cmd. None),
      translateText = (\<lambda>text src tgt.
        if text = ''boom'' then Inl (Error ''ThrottlingException'')
        else if text = ''No date'' then Inr None
        else Inr (Some (tgt @ '':'' @ text))),
      parseURL = (\<lambda>url.
        if url = ''https://aws.amazon.com/new/feed/''
        then Inr \<lparr>feed_title = ''Recent Announcements'',
                  feed_items = [example_new, example_mid, example_old, example_undated]\<rparr>
        else if url = ''https://aws.amazon.com/blogs/aws/feed/''
        then Inr \<lparr>feed_title = ''AWS News Blog'', feed_items = [example_mid, example_old]\<rparr>
        else if url = ''https://aws.amazon.com/blogs/compute/feed/''
        then Inr \<lparr>feed_title = ''AWS Compute Blog'', feed_items = [example_old]\<rparr>
        else Inl (Error ''Status code 404'')),
      dateParse = (\<lambda>s.
        if s = ''+275760-09-13T00:00:00.000Z'' then Some 8640000000000000
        else if s = ''1970-01-06T22:00:00Z'' then Some 511200000
        else if s = ''1970-01-06T00:00:00Z'' then Some 432000000
        else if s = ''1970-01-06T12:00:00Z'' then Some 475200000
        else if s = ''1970-01-07T00:00:00Z'' then Some 518400000
        else None),
      toISOString = (\<lambda>t.
        if t = 8639999913600000 then ''+275760-09-12T00:00:00.000Z''
        else if t = 8640000000000000 then ''+275760-09-13T00:00:00.000Z''
        else if t = 432000000 then ''1970-01-06T00:00:00.000Z''
        else if t = 511200000 then ''1970-01-06T22:00:00.000Z''
        else ''1970-01-07T00:00:00.000Z''),
      toLocaleString = (\<lambda>d locales timeZone.
        if d = None then ''Invalid Date''
        else if d = Some 8639999913600000 then ''9/12/275760, 12:00:00 AM''
        else if d = Some 432000000 then ''1/6/1970, 12:00:00 AM''
        else ''1/7/1970, 12:00:00 AM''),
      JSON_stringify = (\<lambda>fm. ''{title:'' @ fm_title fm @ '',date:'' @ fm_date fm @ ''}''),
      firstRejection = last\<rparr>"

text \<open>
  Two variations: only the blog without an item in the window is configured; and no
  feed can be fetched at all.
\<close>

definition example_quiet_env :: env where
  "example_quiet_env =
     example_env\<lparr>config := example_source\<lparr>awsBlogs := [\<lparr>awsBlog_category = ''compute''\<rparr>]\<rparr>\<rparr>"

definition example_offline_env :: env where
  "example_offline_env = example_env\<lparr>parseURL := (\<lambda>url. Inl (Error ''Status code 404''))\<rparr>"

section \<open>Properties of the publication window\<close>

lemma TimeClip_Some: "\<bar>t\<bar> \<le> maxTime \<Longrightarrow> TimeClip t = Some t"
  by (simp add: TimeClip_def)

lemma spec_normalizedLatest_bounds:
  "t \<le> spec_normalizedLatest t \<and> spec_normalizedLatest t < t + msPerDay"
proof -
  have "0 \<le> t mod msPerDay \<and> t mod msPerDay < msPerDay"
    by (simp add: msPerDay_def)
  then show ?thesis
    by (auto simp: spec_normalizedLatest_def Let_def)
qed

lemma spec_normalizedLatest_midnight: "spec_normalizedLatest t mod msPerDay = 0"
proof -
  have "(t - t mod msPerDay) mod msPerDay = 0"
    by (simp add: minus_mod_eq_mult_div)
  then show ?thesis
    by (simp add: spec_normalizedLatest_def Let_def)
qed

lemma midnight_hours_minutes:
  assumes "t mod msPerDay = 0"
  shows "getHours (Some t) = Some 0 \<and> getMinutes (Some t) = Some 0"
proof -
  from assms have "86400000 dvd t"
    by (simp add: msPerDay_def mod_eq_0_iff_dvd)
  then obtain k where k: "t = k * 86400000"
    by (auto elim: dvdE)
  have h: "(k * 86400000) div 3600000 = k * 24"
    by simp
  have m: "(k * 86400000) div 60000 = k * 1440"
    by simp
  show ?thesis
    by (simp add: getHours_def getMinutes_def k h m)
qed

text \<open>
  Away from the ends of the range of \<^verbatim>\<open>Date\<close>, the handler normalizes \<open>latest\<close> as
  the specification says when the execution time is the start of a day or has hours or
  minutes other than zero.
\<close>

lemma latestPubDate_init_spec:
  assumes range: "\<bar>t\<bar> + msPerDay \<le> maxTime"
    and normal: "getHours (Some t) \<noteq> Some 0 \<or> getMinutes (Some t) \<noteq> Some 0 \<or> t mod msPerDay = 0"
  shows "latestPubDate_init (Some t) = Some (spec_normalizedLatest t)"
proof (cases "t mod msPerDay = 0")
  case True
  with midnight_hours_minutes [OF True] show ?thesis
    by (simp add: latestPubDate_init_def spec_normalizedLatest_def)
next
  case False
  with normal have hm: "getHours (Some t) \<noteq> Some 0 \<or> getMinutes (Some t) \<noteq> Some 0"
    by simp
  have m: "0 \<le> t mod msPerDay \<and> t mod msPerDay < msPerDay"
    by (simp add: msPerDay_def)
  have day: "0 < msPerDay"
    by (simp add: msPerDay_def)
  from range m day have "\<bar>t - t mod msPerDay\<bar> \<le> maxTime"
    by linarith
  then have 1: "setHours0 (Some t) = Some (t - t mod msPerDay)"
    by (simp add: setHours0_def TimeClip_Some)
  from range m day have "\<bar>t - t mod msPerDay + msPerDay\<bar> \<le> maxTime"
    by linarith
  then have 2: "addDate (Some (t - t mod msPerDay)) 1 = Some (t - t mod msPerDay + msPerDay)"
    by (simp add: addDate_def TimeClip_Some)
  from False hm show ?thesis
    by (simp add: latestPubDate_init_def spec_normalizedLatest_def Let_def 1 2)
qed

text \<open>In the first minute of a day the execution time is kept as it is.\<close>

lemma latestPubDate_init_first_minute:
  "getHours d = Some 0 \<Longrightarrow> getMinutes d = Some 0 \<Longrightarrow> latestPubDate_init d = d"
  by (simp add: latestPubDate_init_def)

lemma pubDateWindow_invalid: "pubDateWindow None = (None, None)"
  by (simp add: pubDateWindow_def weekdayCorrection_def oldestPubDate_init_def
      latestPubDate_init_def getHours_def getDay_def setHours0_def addDate_def)

lemma addDate_Some: "addDate d n = Some x \<Longrightarrow> \<exists>t. d = Some t \<and> x = t + n * msPerDay"
  by (auto simp: addDate_def TimeClip_def split: option.splits if_splits)

lemma latestPubDate_init_Some: "latestPubDate_init d = Some l \<Longrightarrow> \<exists>t. d = Some t"
  by (cases d) (auto simp: latestPubDate_init_def getHours_def setHours0_def addDate_def)

text \<open>
  C3. The claim: the pre-correction \<open>latest\<close> is the execution time when that is
  exactly the start of a day and the start of the following day otherwise, for any time of
  day, also with seconds or milliseconds other than zero. The handler tests the hours and
  the minutes only: at 1970-01-01T00:00:30.000Z (time value \<open>30000\<close>) both are zero,
  so \<open>latestPubDate\<close> stays the execution time, which is not the start of its day
  (\<open>0\<close>), not the start of the following day (\<open>86400000\<close>) and not a midnight.
\<close>

theorem latestPubDate_init_ignores_seconds:
  "getHours (Some 30000) = Some 0 \<and> getMinutes (Some 30000) = Some 0 \<and>
   getSeconds (Some 30000) = Some 30 \<and>
   setHours0 (Some 30000) = Some 0 \<and>
   spec_normalizedLatest 30000 = 86400000 \<and>
   latestPubDate_init (Some 30000) = Some 30000 \<and>
   latestPubDate_init (Some 30000) \<noteq> setHours0 (Some 30000) \<and>
   latestPubDate_init (Some 30000) \<noteq> addDate (setHours0 (Some 30000)) 1 \<and>
   latestPubDate_init (Some 30000) \<noteq> Some (spec_normalizedLatest 30000) \<and>
   30000 mod msPerDay \<noteq> 0"
  by (simp add: latestPubDate_init_def getHours_def getMinutes_def getSeconds_def
      setHours0_def addDate_def TimeClip_def maxTime_def msPerDay_def
      spec_normalizedLatest_def)

theorem latestPubDate_init_ignores_seconds_witness:
  "latestPubDate_init (Some 30000) = Some 30000 \<and> 30000 mod msPerDay = 30000"
  using latestPubDate_init_ignores_seconds by (simp add: msPerDay_def)

text \<open>
  C4, as the code has it. Let the execution time be the start of a day or have hours or
  minutes other than zero, and lie at least three days inside the range of
  \<^verbatim>\<open>Date\<close>. Then the handler normalizes \<open>latest\<close> as the specification says, and
  the weekday correction reads the weekday of that normalized \<open>latest\<close>: on a Saturday
  (6) \<open>latest\<close> moves two days on; on a Sunday (0) \<open>latest\<close> moves one day on and
  \<open>oldest\<close> one day back; on a Monday (1) \<open>oldest\<close> moves two days back; from Tuesday
  to Friday neither changes. So on a Saturday \<open>latest - oldest\<close> is exactly three days.
\<close>

theorem pubDateWindow_weekday_correction:
  fixes t :: int
  defines "l0 \<equiv> spec_normalizedLatest t"
  assumes range: "\<bar>t\<bar> + 3 * msPerDay \<le> maxTime"
    and normal: "getHours (Some t) \<noteq> Some 0 \<or> getMinutes (Some t) \<noteq> Some 0 \<or> t mod msPerDay = 0"
  shows "latestPubDate_init (Some t) = Some l0 \<and>
    oldestPubDate_init (Some t) = Some (l0 - msPerDay) \<and>
    (getDay (Some l0) = Some 6 \<longrightarrow>
       pubDateWindow (Some t) = (Some (l0 - msPerDay), Some (l0 + 2 * msPerDay))) \<and>
    (getDay (Some l0) = Some 0 \<longrightarrow>
       pubDateWindow (Some t) = (Some (l0 - 2 * msPerDay), Some (l0 + msPerDay))) \<and>
    (getDay (Some l0) = Some 1 \<longrightarrow>
       pubDateWindow (Some t) = (Some (l0 - 3 * msPerDay), Some l0)) \<and>
    (getDay (Some l0) \<noteq> Some 6 \<and> getDay (Some l0) \<noteq> Some 0 \<and> getDay (Some l0) \<noteq> Some 1 \<longrightarrow>
       pubDateWindow (Some t) = (Some (l0 - msPerDay), Some l0)) \<and>
    (getDay (Some l0) = Some 6 \<longrightarrow>
       (\<exists>oldest latest. pubDateWindow (Some t) = (Some oldest, Some latest) \<and>
          latest - oldest = 3 * msPerDay))"
proof -
  have day: "0 < msPerDay"
    by (simp add: msPerDay_def)
  from range day have r1: "\<bar>t\<bar> + msPerDay \<le> maxTime"
    by simp
  have l: "latestPubDate_init (Some t) = Some l0"
    unfolding l0_def by (rule latestPubDate_init_spec [OF r1 normal])
  have b: "t \<le> l0 \<and> l0 < t + msPerDay"
    unfolding l0_def by (rule spec_normalizedLatest_bounds)
  from b range day have r: "- maxTime \<le> l0 - 3 * msPerDay \<and> l0 + 2 * msPerDay \<le> maxTime"
    by linarith
  have clip: "TimeClip (l0 - msPerDay) = Some (l0 - msPerDay)"
    "TimeClip (l0 + 2 * msPerDay) = Some (l0 + 2 * msPerDay)"
    "TimeClip (l0 + msPerDay) = Some (l0 + msPerDay)"
    "TimeClip (l0 - 2 * msPerDay) = Some (l0 - 2 * msPerDay)"
    "TimeClip (l0 - 3 * msPerDay) = Some (l0 - 3 * msPerDay)"
    using r day by (auto intro!: TimeClip_Some)
  have o: "oldestPubDate_init (Some t) = Some (l0 - msPerDay)"
    by (simp add: oldestPubDate_init_def l addDate_def clip)
  have sat: "addDate (Some l0) 2 = Some (l0 + 2 * msPerDay)"
    by (simp add: addDate_def clip)
  have sun: "addDate (Some l0) 1 = Some (l0 + msPerDay)"
    "addDate (Some (l0 - msPerDay)) (- 1) = Some (l0 - 2 * msPerDay)"
    by (simp_all add: addDate_def clip)
  have mon: "addDate (Some (l0 - msPerDay)) (- 2) = Some (l0 - 3 * msPerDay)"
    by (simp add: addDate_def clip)
  show ?thesis
    by (simp add: l o sat sun mon pubDateWindow_def weekdayCorrection_def)
qed

theorem pubDateWindow_weekday_correction_witness:
  "getDay (Some (spec_normalizedLatest 165600000)) = Some 6 \<and>
   pubDateWindow (Some 165600000) = (Some 86400000, Some 345600000) \<and>
   getDay (Some (spec_normalizedLatest 172800000)) = Some 6 \<and>
   pubDateWindow (Some 172800000) = (Some 86400000, Some 345600000) \<and>
   345600000 - 86400000 = 3 * msPerDay \<and>
   getDay (Some (spec_normalizedLatest 259200000)) = Some 0 \<and>
   pubDateWindow (Some 259200000) = (Some 86400000, Some 345600000) \<and>
   getDay (Some (spec_normalizedLatest 345600000)) = Some 1 \<and>
   pubDateWindow (Some 345600000) = (Some 86400000, Some 345600000) \<and>
   getDay (Some (spec_normalizedLatest 511200000)) = Some 3 \<and>
   pubDateWindow (Some 511200000) = (Some 432000000, Some 518400000)"
proof -
  have l0: "spec_normalizedLatest 165600000 = 172800000"
    "spec_normalizedLatest 172800000 = 172800000"
    "spec_normalizedLatest 259200000 = 259200000"
    "spec_normalizedLatest 345600000 = 345600000"
    "spec_normalizedLatest 511200000 = 518400000"
    by (simp_all add: spec_normalizedLatest_def msPerDay_def)
  have days: "getDay (Some 172800000) = Some 6" "getDay (Some 259200000) = Some 0"
    "getDay (Some 345600000) = Some 1" "getDay (Some 518400000) = Some 3"
    by (simp_all add: getDay_def msPerDay_def)
  have range: "\<bar>165600000\<bar> + 3 * msPerDay \<le> maxTime" "\<bar>172800000\<bar> + 3 * msPerDay \<le> maxTime"
    "\<bar>259200000\<bar> + 3 * msPerDay \<le> maxTime" "\<bar>345600000\<bar> + 3 * msPerDay \<le> maxTime"
    "\<bar>511200000\<bar> + 3 * msPerDay \<le> maxTime"
    by (simp_all add: msPerDay_def maxTime_def)
  have normal:
    "getHours (Some 165600000) \<noteq> Some 0 \<or> getMinutes (Some 165600000) \<noteq> Some 0 \<or>
       165600000 mod msPerDay = 0"
    "getHours (Some 172800000) \<noteq> Some 0 \<or> getMinutes (Some 172800000) \<noteq> Some 0 \<or>
       172800000 mod msPerDay = 0"
    "getHours (Some 259200000) \<noteq> Some 0 \<or> getMinutes (Some 259200000) \<noteq> Some 0 \<or>
       259200000 mod msPerDay = 0"
    "getHours (Some 345600000) \<noteq> Some 0 \<or> getMinutes (Some 345600000) \<noteq> Some 0 \<or>
       345600000 mod msPerDay = 0"
    "getHours (Some 511200000) \<noteq> Some 0 \<or> getMinutes (Some 511200000) \<noteq> Some 0 \<or>
       511200000 mod msPerDay = 0"
    by (simp_all add: getHours_def getMinutes_def msPerDay_def)
  show ?thesis
    using pubDateWindow_weekday_correction [OF range(1) normal(1)]
      pubDateWindow_weekday_correction [OF range(2) normal(2)]
      pubDateWindow_weekday_correction [OF range(3) normal(3)]
      pubDateWindow_weekday_correction [OF range(4) normal(4)]
      pubDateWindow_weekday_correction [OF range(5) normal(5)]
    by (simp add: l0 days msPerDay_def)
qed

text \<open>
  The claim as stated fails at the end of the range of \<^verbatim>\<open>Date\<close>: at
  +275760-09-13T00:00:00.000Z (time value \<open>8.64e15\<close>), the start of a Saturday, the two
  days added to \<open>latest\<close> leave the range, \<open>latest\<close> is the invalid date and the
  window has no length. It also fails in the first minute of a day, where the handler
  keeps the execution time as \<open>latest\<close> (C3): at 1970-01-02T00:00:30.000Z, a Friday,
  the start of the following day is a Saturday, and the window is the one day before the
  execution time.
\<close>

theorem pubDateWindow_weekday_correction_counterexample:
  "TimeClip 8640000000000000 = Some 8640000000000000 \<and>
   spec_normalizedLatest 8640000000000000 = 8640000000000000 \<and>
   getDay (Some (spec_normalizedLatest 8640000000000000)) = Some 6 \<and>
   pubDateWindow (Some 8640000000000000) = (Some 8639999913600000, None) \<and>
   getDay (Some (spec_normalizedLatest 86430000)) = Some 6 \<and>
   pubDateWindow (Some 86430000) = (Some 30000, Some 86430000)"
  by (simp add: pubDateWindow_def weekdayCorrection_def oldestPubDate_init_def
      latestPubDate_init_def getHours_def getMinutes_def getDay_def setHours0_def addDate_def
      TimeClip_def spec_normalizedLatest_def maxTime_def msPerDay_def)

lemma latestPubDate_init_bounds:
  assumes "\<bar>t\<bar> + msPerDay \<le> maxTime"
  shows "\<exists>l. latestPubDate_init (Some t) = Some l \<and> t \<le> l \<and> l \<le> t + msPerDay"
proof (cases "getHours (Some t) \<noteq> Some 0 \<or> getMinutes (Some t) \<noteq> Some 0")
  case True
  have m: "0 \<le> t mod msPerDay \<and> t mod msPerDay < msPerDay"
    by (simp add: msPerDay_def)
  have day: "0 < msPerDay"
    by (simp add: msPerDay_def)
  from assms m day have "\<bar>t - t mod msPerDay\<bar> \<le> maxTime"
    by linarith
  then have 1: "setHours0 (Some t) = Some (t - t mod msPerDay)"
    by (simp add: setHours0_def TimeClip_Some)
  from assms m day have "\<bar>t - t mod msPerDay + msPerDay\<bar> \<le> maxTime"
    by linarith
  then have 2: "addDate (Some (t - t mod msPerDay)) 1 = Some (t - t mod msPerDay + msPerDay)"
    by (simp add: addDate_def TimeClip_Some)
  from True have "latestPubDate_init (Some t) = Some (t - t mod msPerDay + msPerDay)"
    by (simp add: latestPubDate_init_def 1 2)
  with m show ?thesis
    by simp
next
  case False
  then have "latestPubDate_init (Some t) = Some t"
    by (simp add: latestPubDate_init_def)
  then show ?thesis
    by (simp add: msPerDay_def)
qed

lemma weekdayCorrection_valid:
  assumes "weekdayCorrection (Some (l - msPerDay)) (Some l) = (Some oldest, Some latest)"
  shows "oldest < latest"
  using assms
  by (auto simp: weekdayCorrection_def addDate_def TimeClip_def msPerDay_def
      split: if_splits)

text \<open>
  C5, as the code has it. Whenever both ends of the window are valid dates,
  \<open>oldest < latest\<close>; they are valid for every execution time at least three days
  inside the range of \<^verbatim>\<open>Date\<close>; and the comparison \<^verbatim>\<open>oldest < latest\<close> is
  true exactly when both are valid.
\<close>

theorem pubDateWindow_oldest_less_latest:
  "(\<forall>oldest latest. pubDateWindow d = (Some oldest, Some latest) \<longrightarrow> oldest < latest) \<and>
   (\<forall>t. d = Some t \<and> \<bar>t\<bar> + 3 * msPerDay \<le> maxTime \<longrightarrow>
      (\<exists>oldest latest. pubDateWindow d = (Some oldest, Some latest) \<and> oldest < latest)) \<and>
   (Date_less (fst (pubDateWindow d)) (snd (pubDateWindow d)) \<longleftrightarrow>
      fst (pubDateWindow d) \<noteq> None \<and> snd (pubDateWindow d) \<noteq> None)"
proof -
  have valid: "oldest < latest" if w: "pubDateWindow d = (Some oldest, Some latest)"
    for oldest latest
  proof -
    from w obtain l where l: "latestPubDate_init d = Some l"
      by (cases "latestPubDate_init d")
        (auto simp: pubDateWindow_def weekdayCorrection_def oldestPubDate_init_def
          addDate_def getDay_def)
    from w l obtain x where o: "oldestPubDate_init d = Some x"
      by (cases "oldestPubDate_init d")
        (auto simp: pubDateWindow_def weekdayCorrection_def addDate_def split: if_splits)
    from o l have "x = l - msPerDay"
      by (auto simp: oldestPubDate_init_def dest: addDate_Some)
    with w l o show ?thesis
      by (auto simp: pubDateWindow_def intro: weekdayCorrection_valid)
  qed
  have inside: "\<exists>oldest latest. pubDateWindow d = (Some oldest, Some latest) \<and> oldest < latest"
    if d: "d = Some t" and range: "\<bar>t\<bar> + 3 * msPerDay \<le> maxTime" for t
  proof -
    have day: "0 < msPerDay"
      by (simp add: msPerDay_def)
    from range day have "\<bar>t\<bar> + msPerDay \<le> maxTime"
      by simp
    from latestPubDate_init_bounds [OF this] obtain l where
      l: "latestPubDate_init (Some t) = Some l" and b: "t \<le> l \<and> l \<le> t + msPerDay"
      by blast
    from b range day have "- maxTime \<le> l - 3 * msPerDay \<and> l + 2 * msPerDay \<le> maxTime"
      by linarith
    with day have clip: "TimeClip (l - msPerDay) = Some (l - msPerDay)"
      "TimeClip (l + 2 * msPerDay) = Some (l + 2 * msPerDay)"
      "TimeClip (l + msPerDay) = Some (l + msPerDay)"
      "TimeClip (l - 2 * msPerDay) = Some (l - 2 * msPerDay)"
      "TimeClip (l - 3 * msPerDay) = Some (l - 3 * msPerDay)"
      by (auto intro!: TimeClip_Some)
    have "\<exists>oldest latest. pubDateWindow (Some t) = (Some oldest, Some latest)"
      by (simp add: pubDateWindow_def weekdayCorrection_def oldestPubDate_init_def l
          addDate_def clip)
    with valid d show ?thesis
      by blast
  qed
  have less: "Date_less (fst (pubDateWindow d)) (snd (pubDateWindow d)) \<longleftrightarrow>
      fst (pubDateWindow d) \<noteq> None \<and> snd (pubDateWindow d) \<noteq> None"
  proof (cases "pubDateWindow d")
    case (Pair a b)
    with valid show ?thesis
      by (cases a; cases b) (simp_all add: Date_less_def)
  qed
  from valid inside less show ?thesis
    by blast
qed

theorem pubDateWindow_oldest_less_latest_witness:
  "pubDateWindow (Some 511200000) = (Some 432000000, Some 518400000) \<and>
   (432000000 :: int) < 518400000 \<and>
   Date_less (fst (pubDateWindow (Some 511200000))) (snd (pubDateWindow (Some 511200000)))"
proof -
  have w: "pubDateWindow (Some 511200000) = (Some 432000000, Some 518400000)"
    by (simp add: pubDateWindow_def weekdayCorrection_def oldestPubDate_init_def
        latestPubDate_init_def getHours_def getMinutes_def getDay_def setHours0_def addDate_def
        TimeClip_def maxTime_def msPerDay_def)
  have r: "Some 511200000 = Some 511200000 \<and> \<bar>511200000\<bar> + 3 * msPerDay \<le> maxTime"
    by (simp add: msPerDay_def maxTime_def)
  from pubDateWindow_oldest_less_latest [of "Some 511200000"] w r show ?thesis
    by simp
qed

text \<open>
  The claim as stated, for every execution time, is false: at
  +275760-09-13T00:00:00.000Z, a valid time, \<open>latest\<close> is the invalid date and
  \<^verbatim>\<open>oldest < latest\<close> is false.
\<close>

theorem pubDateWindow_oldest_less_latest_counterexample:
  "TimeClip 8640000000000000 = Some 8640000000000000 \<and>
   fst (pubDateWindow (Some 8640000000000000)) = Some 8639999913600000 \<and>
   snd (pubDateWindow (Some 8640000000000000)) = None \<and>
   \<not> Date_less (fst (pubDateWindow (Some 8640000000000000)))
        (snd (pubDateWindow (Some 8640000000000000)))"
  by (simp add: pubDateWindow_def weekdayCorrection_def oldestPubDate_init_def
      latestPubDate_init_def getHours_def getMinutes_def getDay_def setHours0_def addDate_def
      TimeClip_def Date_less_def maxTime_def msPerDay_def)

section \<open>Properties of the tag aggregation\<close>

lemma split_nonempty: "split sep s \<noteq> []"
  by (induction s) (auto split: list.splits)

lemma startsWith_replace:
  "startsWith s p \<Longrightarrow> replace s p r = r @ drop (length p) s"
  by (cases s) (auto simp: startsWith_def)

lemma Set_add_set: "set (Set_add s x) = insert x (set s)"
  by (auto simp: Set_add_def)

lemma Set_add_distinct: "distinct s \<Longrightarrow> distinct (Set_add s x)"
  by (simp add: Set_add_def)

lemma foldl_Set_add_set: "set (foldl Set_add s xs) = set s \<union> set xs"
  by (induction xs arbitrary: s) (auto simp: Set_add_set)

lemma foldl_Set_add_distinct: "distinct s \<Longrightarrow> distinct (foldl Set_add s xs)"
  by (induction xs arbitrary: s) (auto simp: Set_add_distinct)

lemma foldl_Set_add_absorb: "set xs \<subseteq> set s \<Longrightarrow> foldl Set_add s xs = s"
  by (induction xs arbitrary: s) (auto simp: Set_add_def)

lemma Array_from_Set_distinct: "distinct (Array_from_Set xs)"
  by (simp add: Array_from_Set_def foldl_Set_add_distinct)

lemma Array_from_Set_set: "set (Array_from_Set xs) = set xs"
  by (simp add: Array_from_Set_def foldl_Set_add_set)

lemma Array_from_Set_twice: "Array_from_Set (xs @ xs) = Array_from_Set xs"
  by (simp add: Array_from_Set_def foldl_Set_add_absorb foldl_Set_add_set)

lemma Array_from_Set_idem: "Array_from_Set (Array_from_Set xs) = Array_from_Set xs"
proof -
  have "distinct s \<Longrightarrow> set acc \<inter> set s = {} \<Longrightarrow> foldl Set_add acc s = acc @ s" for acc s :: "string list"
    by (induction s arbitrary: acc) (auto simp: Set_add_def)
  from this [of "Array_from_Set xs" "[]"] show ?thesis
    by (simp add: Array_from_Set_distinct) (simp add: Array_from_Set_def)
qed

lemma pushProducts_concat: "pushProducts tags items = tags @ concat (map products items)"
  by (induction items arbitrary: tags) (auto simp: pushProducts_def)

lemma products_eq:
  "products item =
     map (drop (length products_prefix))
       (filter (\<lambda>x. startsWith x products_prefix)
         (case item_categories item of None \<Rightarrow> [] | Some cs \<Rightarrow> concat (map (split CHR '','') cs)))"
  unfolding products_def Let_def
  by (rule map_cong) (auto simp: startsWith_replace simp del: replace.simps)

lemma set_products:
  "set (products item) =
     {drop (length products_prefix) c | c.
        \<exists>cs. item_categories item = Some cs \<and>
          (\<exists>category \<in> set cs. c \<in> set (split CHR '','' category)) \<and>
          startsWith c products_prefix}"
proof (cases "item_categories item")
  case None
  then show ?thesis by (simp add: products_eq)
next
  case (Some cs)
  then show ?thesis
    by (simp add: products_eq image_def Bex_def) blast
qed


text \<open>
  C8. The tags are duplicate-free; they are the categories of the items, split at the
  commas, that start with the product prefix, without that prefix; aggregating the
  list of items twice over gives the same tags, and so does removing the duplicates
  again.
\<close>

theorem aggregateTags_set:
  "distinct (aggregateTags items) \<and>
   set (aggregateTags items) =
     {drop (length products_prefix) c | c.
        \<exists>item \<in> set items. \<exists>cs. item_categories item = Some cs \<and>
          (\<exists>category \<in> set cs. c \<in> set (split CHR '','' category)) \<and>
          startsWith c products_prefix} \<and>
   aggregateTags (items @ items) = aggregateTags items \<and>
   Array_from_Set (aggregateTags items) = aggregateTags items"
proof (intro conjI)
  show "distinct (aggregateTags items)"
    by (simp add: aggregateTags_def Array_from_Set_distinct)
  have "set (aggregateTags items) = (\<Union>item \<in> set items. set (products item))"
    by (simp add: aggregateTags_def Array_from_Set_set pushProducts_concat)
  also have "\<dots> = {drop (length products_prefix) c | c.
        \<exists>item \<in> set items. \<exists>cs. item_categories item = Some cs \<and>
          (\<exists>category \<in> set cs. c \<in> set (split CHR '','' category)) \<and>
          startsWith c products_prefix}"
    unfolding set_products by blast
  finally show "set (aggregateTags items) = {drop (length products_prefix) c | c.
        \<exists>item \<in> set items. \<exists>cs. item_categories item = Some cs \<and>
          (\<exists>category \<in> set cs. c \<in> set (split CHR '','' category)) \<and>
          startsWith c products_prefix}" .
  show "aggregateTags (items @ items) = aggregateTags items"
    by (simp add: aggregateTags_def pushProducts_concat Array_from_Set_twice)
  show "Array_from_Set (aggregateTags items) = aggregateTags items"
    by (simp add: aggregateTags_def Array_from_Set_idem)
qed

theorem aggregateTags_set_witness:
  "aggregateTags [example_new, example_mid] = [''amazon-ec2'', ''aws-lambda''] \<and>
   distinct (aggregateTags [example_new, example_mid]) \<and>
   aggregateTags ([example_new, example_mid] @ [example_new, example_mid]) =
     aggregateTags [example_new, example_mid]"
proof -
  have "aggregateTags [example_new, example_mid] = [''amazon-ec2'', ''aws-lambda'']"
    by (simp add: aggregateTags_def pushProducts_def products_def Array_from_Set_def Set_add_def
        startsWith_def products_prefix_def example_new_def example_mid_def)
  with aggregateTags_set [of "[example_new, example_mid]"] show ?thesis
    by blast
qed


section \<open>Properties of the translation batches\<close>

lemma rejections_Inr: "rejections (map (\<lambda>x. Inr (g x)) xs) = []"
  by (induction xs) simp_all

lemma fulfilments_Inr: "fulfilments (map (\<lambda>x. Inr (g x)) xs) = map g xs"
  by (induction xs) simp_all

lemma rejections_nonempty: "Inl err \<in> set rs \<Longrightarrow> rejections rs \<noteq> []"
  by (induction rs rule: rejections.induct) auto

lemma fulfilments_length: "rejections rs = [] \<Longrightarrow> length (fulfilments rs) = length rs"
  by (induction rs rule: rejections.induct) auto

lemma Promise_map_Inr:
  assumes "\<And>x. x \<in> set xs \<Longrightarrow> f x = Inr (g x)"
  shows "Promise_map first f xs = Inr (map g xs)"
proof -
  from assms have m: "map f xs = map (\<lambda>x. Inr (g x)) xs"
    by simp
  show ?thesis
    unfolding Promise_map_def m by (simp add: rejections_Inr fulfilments_Inr)
qed

lemma Promise_map_Inl:
  assumes "x \<in> set xs" and "f x = Inl err"
  shows "\<exists>err'. Promise_map first f xs = Inl err'"
proof -
  from assms have "Inl err \<in> set (map f xs)"
    by force
  then have "rejections (map f xs) \<noteq> []"
    by (rule rejections_nonempty)
  then show ?thesis
    by (simp add: Promise_map_def)
qed

lemma Promise_map_length:
  "Promise_map first f xs = Inr ys \<Longrightarrow> length ys = length xs"
  by (auto simp: Promise_map_def Let_def fulfilments_length split: if_splits)

lemma translateTitles_length:
  "translateTitles e src tgt items = Inr out \<Longrightarrow> length out = length items"
  unfolding translateTitles_def by (rule Promise_map_length)

lemma translateContentSnippets_length:
  "translateContentSnippets e src tgt items = Inr out \<Longrightarrow> length out = length items"
  unfolding translateContentSnippets_def by (rule Promise_map_length)


text \<open>
  C1, as the code has it. When every call of the translation service returns, a batch of
  \<open>N\<close> items resolves to \<open>N\<close> items, and the item at index \<open>i\<close> is the input
  item at \<open>i\<close> with its text replaced by the translation, or kept when the service
  returns no text or the empty text. When a call of the service throws, the batch
  rejects: \<^verbatim>\<open>translate\<close> has no handler for the error, and nothing is substituted.
\<close>

theorem translate_batch:
  "((\<forall>item \<in> set items. \<exists>r. translateText e (item_title item) src tgt = Inr r) \<longrightarrow>
      (\<exists>out. translateTitles e src tgt items = Inr out \<and> length out = length items \<and>
        (\<forall>i < length items.
           out ! i = (items ! i)\<lparr>item_title :=
             (case translateText e (item_title (items ! i)) src tgt of
                Inr r \<Rightarrow> or_else r (item_title (items ! i))
              | Inl err \<Rightarrow> item_title (items ! i))\<rparr>))) \<and>
   ((\<exists>item \<in> set items. \<exists>err. translateText e (item_title item) src tgt = Inl err) \<longrightarrow>
      (\<exists>err. translateTitles e src tgt items = Inl err)) \<and>
   ((\<forall>item \<in> set items. \<exists>r. translateText e (item_contentSnippet item) src tgt = Inr r) \<longrightarrow>
      (\<exists>out. translateContentSnippets e src tgt items = Inr out \<and> length out = length items \<and>
        (\<forall>i < length items.
           out ! i = (items ! i)\<lparr>item_contentSnippet :=
             (case translateText e (item_contentSnippet (items ! i)) src tgt of
                Inr r \<Rightarrow> or_else r (item_contentSnippet (items ! i))
              | Inl err \<Rightarrow> item_contentSnippet (items ! i))\<rparr>))) \<and>
   ((\<exists>item \<in> set items. \<exists>err. translateText e (item_contentSnippet item) src tgt = Inl err) \<longrightarrow>
      (\<exists>err. translateContentSnippets e src tgt items = Inl err))"
proof (intro conjI impI)
  assume ok: "\<forall>item \<in> set items. \<exists>r. translateText e (item_title item) src tgt = Inr r"
  let ?g = "\<lambda>item. item\<lparr>item_title :=
             (case translateText e (item_title item) src tgt of
                Inr r \<Rightarrow> or_else r (item_title item)
              | Inl err \<Rightarrow> item_title item)\<rparr>"
  have "translateTitles e src tgt items = Inr (map ?g items)"
    unfolding translateTitles_def
    by (rule Promise_map_Inr) (use ok in \<open>auto simp: translate_def\<close>)
  then show "\<exists>out. translateTitles e src tgt items = Inr out \<and> length out = length items \<and>
        (\<forall>i < length items. out ! i = ?g (items ! i))"
    by simp
next
  assume "\<exists>item \<in> set items. \<exists>err. translateText e (item_title item) src tgt = Inl err"
  then obtain item err where "item \<in> set items"
    and "translateText e (item_title item) src tgt = Inl err"
    by blast
  then show "\<exists>err. translateTitles e src tgt items = Inl err"
    unfolding translateTitles_def
    by (intro Promise_map_Inl [where x = item and err = err]) (simp_all add: translate_def)
next
  assume ok: "\<forall>item \<in> set items. \<exists>r. translateText e (item_contentSnippet item) src tgt = Inr r"
  let ?g = "\<lambda>item. item\<lparr>item_contentSnippet :=
             (case translateText e (item_contentSnippet item) src tgt of
                Inr r \<Rightarrow> or_else r (item_contentSnippet item)
              | Inl err \<Rightarrow> item_contentSnippet item)\<rparr>"
  have "translateContentSnippets e src tgt items = Inr (map ?g items)"
    unfolding translateContentSnippets_def
    by (rule Promise_map_Inr) (use ok in \<open>auto simp: translate_def\<close>)
  then show "\<exists>out. translateContentSnippets e src tgt items = Inr out \<and>
        length out = length items \<and> (\<forall>i < length items. out ! i = ?g (items ! i))"
    by simp
next
  assume "\<exists>item \<in> set items. \<exists>err. translateText e (item_contentSnippet item) src tgt = Inl err"
  then obtain item err where "item \<in> set items"
    and "translateText e (item_contentSnippet item) src tgt = Inl err"
    by blast
  then show "\<exists>err. translateContentSnippets e src tgt items = Inl err"
    unfolding translateContentSnippets_def
    by (intro Promise_map_Inl [where x = item and err = err]) (simp_all add: translate_def)
qed

theorem translate_batch_witness:
  "(\<exists>out. translateTitles example_env ''en'' ''ja'' [example_mid, example_undated] = Inr out \<and>
      length out = 2 \<and>
      item_title (out ! 0) = ''ja:AWS Lambda in a new region'' \<and>
      item_title (out ! 1) = ''No date'') \<and>
   (\<exists>err. translateContentSnippets example_env ''en'' ''ja'' [example_mid, example_undated] = Inl err)"
  using translate_batch [of "[example_mid, example_undated]" example_env "''en''" "''ja''"]
  by (simp add: translateTitles_def translateContentSnippets_def Promise_map_def translate_def
      or_else_def example_env_def example_mid_def example_undated_def)


text \<open>
  The claim as stated, that a failing call never fails the batch, is false: in the
  example the service throws on the second snippet and the batch rejects.
\<close>

theorem translate_batch_counterexample:
  "translateContentSnippets example_env ''en'' ''ja'' [example_mid, example_undated] =
     Inl (Error ''ThrottlingException'')"
  by (simp add: translateContentSnippets_def Promise_map_def translate_def example_env_def
      example_mid_def example_undated_def)


section \<open>Properties of getFeed\<close>

text \<open>
  C2. When the feed is fetched, \<^verbatim>\<open>getFeed\<close> returns it with exactly the items
  whose date \<open>pubDate\<close> has \<open>oldest < pubDate \<le> latest\<close>, in the order of the feed: an
  item dated \<open>oldest\<close> is left out, an item dated \<open>latest\<close> is kept.
\<close>

theorem getFeed_window:
  assumes "parseURL e feedUrl = Inr f"
  shows "\<exists>feed. getFeed e feedUrl oldest latest w = (Inr feed, w) \<and>
     feed_title feed = feed_title f \<and>
     feed_items feed = filter (inRange e oldest latest) (feed_items f) \<and>
     (\<forall>item. item \<in> set (feed_items feed) \<longleftrightarrow>
        item \<in> set (feed_items f) \<and>
        (\<exists>pubDate tOld tNew. pubDateOf e item = Some pubDate \<and> oldest = Some tOld \<and> latest = Some tNew \<and>
           tOld < pubDate \<and> pubDate \<le> tNew)) \<and>
     (\<forall>item. pubDateOf e item = oldest \<longrightarrow> item \<notin> set (feed_items feed)) \<and>
     (\<forall>item. item \<in> set (feed_items f) \<and> pubDateOf e item = latest \<and> Date_less oldest latest \<longrightarrow>
        item \<in> set (feed_items feed))"
  using assms
  by (auto simp: getFeed_def inRange_def Date_greater_def Date_le_def Date_less_def
      split: option.splits)

theorem getFeed_window_witness:
  "\<exists>feed. getFeed example_env announcements_feedUrl (Some 432000000) (Some 518400000)
       \<lparr>console = [], s3_sent = []\<rparr> = (Inr feed, \<lparr>console = [], s3_sent = []\<rparr>) \<and>
     feed_items feed = [example_new, example_mid] \<and>
     pubDateOf example_env example_old = Some 432000000 \<and>
     example_old \<notin> set (feed_items feed) \<and>
     pubDateOf example_env example_new = Some 518400000 \<and>
     example_new \<in> set (feed_items feed)"
proof -
  have p: "parseURL example_env announcements_feedUrl =
      Inr \<lparr>feed_title = ''Recent Announcements'',
           feed_items = [example_new, example_mid, example_old, example_undated]\<rparr>"
    by (simp add: example_env_def announcements_feedUrl_def)
  have d: "pubDateOf example_env example_old = Some 432000000"
    "pubDateOf example_env example_mid = Some 475200000"
    "pubDateOf example_env example_new = Some 518400000"
    "pubDateOf example_env example_undated = None"
    by (simp_all add: pubDateOf_def newDate_def TimeClip_def maxTime_def example_env_def
        example_old_def example_mid_def example_new_def example_undated_def)
  show ?thesis
    using getFeed_window [OF p, of "Some 432000000" "Some 518400000"
        "\<lparr>console = [], s3_sent = []\<rparr>"]
    by (auto simp: inRange_def Date_greater_def Date_le_def d)
qed

section \<open>The date of the front matter\<close>

lemma or_else_nonempty: "b \<noteq> [] \<Longrightarrow> or_else a b \<noteq> []"
  by (simp add: or_else_def split: option.splits)


text \<open>
  C7. The \<open>date\<close> of the front matter is the date found in the metadata of the object
  at the key of the article, when the lookup returns one (a date is not the empty string);
  it is the execution time when the lookup throws, when the response has no metadata,
  and when the metadata have no \<open>date\<close>. The handler stores the date of the front
  matter under \<open>date\<close> in the metadata of the object it puts, so a lookup that returns
  those metadata gives that date again; and the date is never empty when the ISO string
  of the execution time is not.
\<close>

theorem frontMatter_date_idempotent:
  "fm_date (frontMatter_init e event executedDate oldest) =
     frontMatter_date e (objectKey e (event_lang event) oldest) executedDate \<and>
   (\<forall>m v. s3_headObject e (bucketName e) key = Inr (Some m) \<and> m ''date'' = Some v \<and> v \<noteq> [] \<longrightarrow>
      frontMatter_date e key executedDate = v) \<and>
   (\<forall>err. s3_headObject e (bucketName e) key = Inl err \<longrightarrow>
      frontMatter_date e key executedDate = toISOString e executedDate) \<and>
   (s3_headObject e (bucketName e) key = Inr None \<longrightarrow>
      frontMatter_date e key executedDate = toISOString e executedDate) \<and>
   (\<forall>m. s3_headObject e (bucketName e) key = Inr (Some m) \<and> m ''date'' = None \<longrightarrow>
      frontMatter_date e key executedDate = toISOString e executedDate) \<and>
   (\<forall>e0 key0 fm body.
      s3_headObject e (bucketName e) key =
        Inr (Some (map_of (Metadata (putObjectCommand e0 key0 fm body)))) \<and> fm_date fm \<noteq> [] \<longrightarrow>
      frontMatter_date e key executedDate = fm_date fm) \<and>
   (toISOString e executedDate \<noteq> [] \<longrightarrow> frontMatter_date e key executedDate \<noteq> [])"
  by (simp add: frontMatter_init_def frontMatter_date_def getMetadata_def or_else_def
      putObjectCommand_def split: sum.splits option.splits)

theorem frontMatter_date_idempotent_witness:
  "frontMatter_date
     (example_env\<lparr>s3_headObject :=
        (\<lambda>bucket key. Inr (Some [''date'' \<mapsto> ''1970-01-05T22:00:00.000Z'']))\<rparr>)
     ''hugo/content/headlines/19700106/index.en.md'' 511200000 = ''1970-01-05T22:00:00.000Z'' \<and>
   frontMatter_date example_env ''hugo/content/headlines/19700106/index.en.md'' 511200000 =
     ''1970-01-06T22:00:00.000Z'' \<and>
   frontMatter_date (example_env\<lparr>s3_headObject := (\<lambda>bucket key. Inr None)\<rparr>)
     ''hugo/content/headlines/19700106/index.en.md'' 511200000 = ''1970-01-06T22:00:00.000Z'' \<and>
   frontMatter_date
     (example_env\<lparr>s3_headObject := (\<lambda>bucket key. Inr (Some [''draft'' \<mapsto> ''true'']))\<rparr>)
     ''hugo/content/headlines/19700106/index.en.md'' 511200000 = ''1970-01-06T22:00:00.000Z''"
proof -
  let ?k = "''hugo/content/headlines/19700106/index.en.md''"
  let ?e1 = "example_env\<lparr>s3_headObject :=
        (\<lambda>bucket key. Inr (Some [''date'' \<mapsto> ''1970-01-05T22:00:00.000Z'']))\<rparr>"
  let ?e3 = "example_env\<lparr>s3_headObject := (\<lambda>bucket key. Inr None)\<rparr>"
  let ?e4 = "example_env\<lparr>s3_headObject := (\<lambda>bucket key. Inr (Some [''draft'' \<mapsto> ''true'']))\<rparr>"
  have 1: "s3_headObject ?e1 (bucketName ?e1) ?k =
      Inr (Some [''date'' \<mapsto> ''1970-01-05T22:00:00.000Z''])"
    by simp
  have 2: "s3_headObject example_env (bucketName example_env) ?k = Inl (Error ''NotFound'')"
    by (simp add: example_env_def)
  have 3: "s3_headObject ?e3 (bucketName ?e3) ?k = Inr None"
    by simp
  have 4: "s3_headObject ?e4 (bucketName ?e4) ?k = Inr (Some [''draft'' \<mapsto> ''true''])"
    by simp
  have iso: "toISOString example_env 511200000 = ''1970-01-06T22:00:00.000Z''"
    "toISOString ?e3 511200000 = ''1970-01-06T22:00:00.000Z''"
    "toISOString ?e4 511200000 = ''1970-01-06T22:00:00.000Z''"
    by (simp_all add: example_env_def)
  have a: "frontMatter_date ?e1 ?k 511200000 = ''1970-01-05T22:00:00.000Z''"
    using frontMatter_date_idempotent [of ?e1 _ 511200000 _ ?k] 1 by simp
  have b: "frontMatter_date example_env ?k 511200000 = ''1970-01-06T22:00:00.000Z''"
    using frontMatter_date_idempotent [of example_env _ 511200000 _ ?k] 2 iso by simp
  have c: "frontMatter_date ?e3 ?k 511200000 = ''1970-01-06T22:00:00.000Z''"
    using frontMatter_date_idempotent [of ?e3 _ 511200000 _ ?k] 3 iso by simp
  have d: "frontMatter_date ?e4 ?k 511200000 = ''1970-01-06T22:00:00.000Z''"
    using frontMatter_date_idempotent [of ?e4 _ 511200000 _ ?k] 4 iso by simp
  from a b c d show ?thesis
    by simp
qed

section \<open>Properties of the handler\<close>

lemma await_Inr_iff:
  "await m f w = (Inr y, w') \<longleftrightarrow> (\<exists>x w1. m w = (Inr x, w1) \<and> f x w1 = (Inr y, w'))"
  by (auto simp: await_def split: prod.splits sum.splits)

lemma resolve_iff: "resolve x w = (r, w') \<longleftrightarrow> r = Inr x \<and> w' = w"
  by (auto simp: resolve_def)

lemma settle_iff: "settle r w = (r', w') \<longleftrightarrow> r' = r \<and> w' = w"
  by (auto simp: settle_def)

lemma getFeed_fetched:
  assumes "getFeed e feedUrl oldest latest w = (r, w')"
  shows "r = Inr (fetched e feedUrl oldest latest) \<and> s3_sent w' = s3_sent w"
  using assms by (auto simp: getFeed_def fetched_def split: sum.splits)

lemma for_await_appends:
  assumes step: "\<And>x s w r w'. body x s w = (Inr r, w') \<Longrightarrow>
      s3_sent w' = s3_sent w \<and>
      (if keep x then \<exists>c. r = s @ [c] \<and> label c = name x \<and> ok c else r = s)"
    and run: "for_await body xs s w = (Inr r, w')"
  shows "s3_sent w' = s3_sent w \<and>
    (\<exists>cs. r = s @ cs \<and> map label cs = map name (filter keep xs) \<and> (\<forall>c \<in> set cs. ok c))"
  using run
proof (induction xs arbitrary: s w)
  case Nil
  then show ?case by (simp add: resolve_iff)
next
  case (Cons x xs)
  from Cons.prems obtain s1 w1 where 1: "body x s w = (Inr s1, w1)"
    and 2: "for_await body xs s1 w1 = (Inr r, w')"
    by (auto simp: await_Inr_iff)
  from Cons.IH [OF 2] obtain cs where cs: "s3_sent w' = s3_sent w1" "r = s1 @ cs"
    "map label cs = map name (filter keep xs)" "\<forall>c \<in> set cs. ok c"
    by blast
  show ?case
  proof (cases "keep x")
    case True
    with step [OF 1] obtain c where "s3_sent w1 = s3_sent w" "s1 = s @ [c]" "label c = name x" "ok c"
      by auto
    with cs True show ?thesis by auto
  next
    case False
    with step [OF 1] have "s3_sent w1 = s3_sent w" "s1 = s" by auto
    with cs False show ?thesis by auto
  qed
qed

lemma playlist_body_step:
  assumes "playlist_body e lang oldest latest p s w = (Inr r, w')"
  shows "s3_sent w' = s3_sent w \<and>
    (if feed_items (fetched e (playlist_feedUrl p) oldest latest) \<noteq> []
     then \<exists>c. r = s @ [c] \<and> channel_title c = playlistTitle lang p \<and> channel_items c \<noteq> []
     else r = s)"
  using assms unfolding playlist_body_def
  by (auto simp: await_Inr_iff resolve_iff settle_iff
      dest!: getFeed_fetched translateTitles_length [OF sym] split: if_splits)

lemma japanBlog_body_step:
  assumes "japanBlog_body e lang oldest latest b s w = (Inr r, w')"
  shows "s3_sent w' = s3_sent w \<and>
    (if feed_items (fetched e (japanBlog_feedUrl b) oldest latest) \<noteq> []
     then \<exists>c. r = s @ [c] \<and> channel_title c = japanBlogTitle lang b \<and> channel_items c \<noteq> []
     else r = s)"
  using assms unfolding japanBlog_body_def
  by (auto simp: await_Inr_iff resolve_iff settle_iff
      dest!: getFeed_fetched translateTitles_length [OF sym] split: if_splits)

lemma awsBlog_body_step:
  assumes "awsBlog_body e lang oldest latest b s w = (Inr r, w')"
  shows "s3_sent w' = s3_sent w \<and>
    (if feed_items (fetched e (awsBlog_feedUrl b) oldest latest) \<noteq> []
     then \<exists>c. r = s @ [c] \<and>
            channel_title c = feed_title (fetched e (awsBlog_feedUrl b) oldest latest) \<and>
            channel_items c \<noteq> []
     else r = s)"
  using assms unfolding awsBlog_body_def
  by (auto simp: await_Inr_iff resolve_iff settle_iff
      dest!: getFeed_fetched translateTitles_length [OF sym] split: if_splits)

lemma githubRepo_body_step:
  assumes "githubRepo_body e oldest latest g s w = (Inr r, w')"
  shows "s3_sent w' = s3_sent w \<and>
    (if feed_items (fetched e (githubRepo_feedUrl g) oldest latest) \<noteq> []
     then \<exists>c. r = s @ [c] \<and> repo_title c = githubRepo_title g \<and> repo_items c \<noteq> []
     else r = s)"
  using assms unfolding githubRepo_body_def
  by (auto simp: await_Inr_iff resolve_iff dest!: getFeed_fetched split: if_splits)

lemma fetchAnnouncements_Inr:
  assumes "fetchAnnouncements e lang oldest latest w = (Inr (tags, items), w')"
  shows "s3_sent w' = s3_sent w"
    and "length items = length (feed_items (fetched e announcements_feedUrl oldest latest))"
    and "tags = pushProducts [] items"
  using assms unfolding fetchAnnouncements_def
  by (auto simp: await_Inr_iff resolve_iff settle_iff
      dest!: getFeed_fetched translateContentSnippets_length [OF sym] split: if_splits)

lemma collect_Inr:
  assumes "collect e lang oldest latest w = (Inr (tags, data), w')"
  shows "s3_sent w' = s3_sent w"
    and "length (announcements data) =
           length (feed_items (fetched e announcements_feedUrl oldest latest))"
    and "tags = pushProducts [] (announcements data)"
    and "map channel_title (youtube data) =
           map (playlistTitle lang)
             (filter (\<lambda>p. feed_items (fetched e (playlist_feedUrl p) oldest latest) \<noteq> [])
               (youtube_playlists (config e)))"
    and "\<forall>c \<in> set (youtube data). channel_items c \<noteq> []"
    and "map channel_title (blogs data) =
           map (japanBlogTitle lang)
             (filter (\<lambda>b. feed_items (fetched e (japanBlog_feedUrl b) oldest latest) \<noteq> [])
               (awsJapanBlogs (config e))) @
           map (\<lambda>b. feed_title (fetched e (awsBlog_feedUrl b) oldest latest))
             (filter (\<lambda>b. feed_items (fetched e (awsBlog_feedUrl b) oldest latest) \<noteq> [])
               (awsBlogs (config e)))"
    and "\<forall>c \<in> set (blogs data). channel_items c \<noteq> []"
    and "map repo_title (oss data) =
           map githubRepo_title
             (filter (\<lambda>g. feed_items (fetched e (githubRepo_feedUrl g) oldest latest) \<noteq> [])
               (githubRepos (config e)))"
    and "\<forall>r \<in> set (oss data). repo_items r \<noteq> []"
proof -
  from assms obtain items w1 yt w2 jb w3 bl w4 os where
    a: "fetchAnnouncements e lang oldest latest w = (Inr (tags, items), w1)"
    and y: "for_await (playlist_body e lang oldest latest) (youtube_playlists (config e)) [] w1 =
        (Inr yt, w2)"
    and j: "for_await (japanBlog_body e lang oldest latest) (awsJapanBlogs (config e)) [] w2 =
        (Inr jb, w3)"
    and b: "for_await (awsBlog_body e lang oldest latest) (awsBlogs (config e)) jb w3 =
        (Inr bl, w4)"
    and g: "for_await (githubRepo_body e oldest latest) (githubRepos (config e)) [] w4 =
        (Inr os, w')"
    and d: "data = \<lparr>announcements = items, youtube = yt, blogs = bl, oss = os\<rparr>"
    unfolding collect_def by (auto simp: await_Inr_iff resolve_iff)
  note a' = fetchAnnouncements_Inr [OF a]
  have y': "s3_sent w2 = s3_sent w1 \<and>
      (\<exists>cs. yt = [] @ cs \<and>
         map channel_title cs = map (playlistTitle lang)
           (filter (\<lambda>p. feed_items (fetched e (playlist_feedUrl p) oldest latest) \<noteq> [])
             (youtube_playlists (config e))) \<and>
         (\<forall>c \<in> set cs. channel_items c \<noteq> []))"
    by (rule for_await_appends [where body = "playlist_body e lang oldest latest", OF _ y])
      (erule playlist_body_step)
  have j': "s3_sent w3 = s3_sent w2 \<and>
      (\<exists>cs. jb = [] @ cs \<and>
         map channel_title cs = map (japanBlogTitle lang)
           (filter (\<lambda>b. feed_items (fetched e (japanBlog_feedUrl b) oldest latest) \<noteq> [])
             (awsJapanBlogs (config e))) \<and>
         (\<forall>c \<in> set cs. channel_items c \<noteq> []))"
    by (rule for_await_appends [where body = "japanBlog_body e lang oldest latest", OF _ j])
      (erule japanBlog_body_step)
  have b': "s3_sent w4 = s3_sent w3 \<and>
      (\<exists>cs. bl = jb @ cs \<and>
         map channel_title cs = map (\<lambda>b. feed_title (fetched e (awsBlog_feedUrl b) oldest latest))
           (filter (\<lambda>b. feed_items (fetched e (awsBlog_feedUrl b) oldest latest) \<noteq> [])
             (awsBlogs (config e))) \<and>
         (\<forall>c \<in> set cs. channel_items c \<noteq> []))"
    by (rule for_await_appends [where body = "awsBlog_body e lang oldest latest", OF _ b])
      (erule awsBlog_body_step)
  have g': "s3_sent w' = s3_sent w4 \<and>
      (\<exists>cs. os = [] @ cs \<and>
         map repo_title cs = map githubRepo_title
           (filter (\<lambda>g. feed_items (fetched e (githubRepo_feedUrl g) oldest latest) \<noteq> [])
             (githubRepos (config e))) \<and>
         (\<forall>c \<in> set cs. repo_items c \<noteq> []))"
    by (rule for_await_appends [where body = "githubRepo_body e oldest latest", OF _ g])
      (erule githubRepo_body_step)
  show "s3_sent w' = s3_sent w"
    using a' y' j' b' g' by simp
  show "length (announcements data) =
      length (feed_items (fetched e announcements_feedUrl oldest latest))"
    using a' d by simp
  show "tags = pushProducts [] (announcements data)"
    using a' d by simp
  show "map channel_title (youtube data) =
      map (playlistTitle lang)
        (filter (\<lambda>p. feed_items (fetched e (playlist_feedUrl p) oldest latest) \<noteq> [])
          (youtube_playlists (config e)))"
    using y' d by auto
  show "\<forall>c \<in> set (youtube data). channel_items c \<noteq> []"
    using y' d by auto
  show "map channel_title (blogs data) =
      map (japanBlogTitle lang)
        (filter (\<lambda>b. feed_items (fetched e (japanBlog_feedUrl b) oldest latest) \<noteq> [])
          (awsJapanBlogs (config e))) @
      map (\<lambda>b. feed_title (fetched e (awsBlog_feedUrl b) oldest latest))
        (filter (\<lambda>b. feed_items (fetched e (awsBlog_feedUrl b) oldest latest) \<noteq> [])
          (awsBlogs (config e)))"
    using j' b' d by auto
  show "\<forall>c \<in> set (blogs data). channel_items c \<noteq> []"
    using j' b' d by auto
  show "map repo_title (oss data) =
      map githubRepo_title
        (filter (\<lambda>g. feed_items (fetched e (githubRepo_feedUrl g) oldest latest) \<noteq> [])
          (githubRepos (config e)))"
    using g' d by auto
  show "\<forall>r \<in> set (oss data). repo_items r \<noteq> []"
    using g' d by auto
qed

lemma handler_Inr:
  assumes "handler e event w = (Inr payload, w')"
    and "pubDateWindow (newDate e (Some (event_time event))) = (oldest, latest)"
  shows "\<exists>tOld executed tags data w1 fm.
      oldest = Some tOld \<and> newDate e (Some (event_time event)) = Some executed \<and>
      collect e (event_lang event) oldest latest w = (Inr (tags, data), w1) \<and>
      fm = (frontMatter_init e event executed tOld)\<lparr>fm_tags := Array_from_Set tags\<rparr> \<and>
      s3_sent w' = s3_sent w1 @
        [putObjectCommand e (objectKey e (event_lang event) tOld) fm
           (mdBody e (event_lang event) fm
              (pubDateRange e (event_lang event) oldest latest) data)]"
  using assms unfolding handler_def
  by (auto simp: await_Inr_iff resolve_iff s3_send_def Let_def split: option.splits)

lemma headings_append: "headings (xs @ ys) = headings xs @ headings ys"
  by (simp add: headings_def)

lemma headings_items: "filter is_heading (concat (map md_item items)) = []"
  by (induction items) (simp_all add: md_item_def)

lemma headings_md_announcements:
  "headings (md_announcements lang items) = [H3 (announcementsHeader lang)]"
proof -
  have "headings (concat (map (\<lambda>item.
      [Bold (''['' @ item_title item @ '']('' @ item_link item @ '')''), Newline,
       BlockQuote (item_contentSnippet item)]) items)) = []"
    by (induction items) (simp_all add: headings_def)
  then show ?thesis
    by (simp add: md_announcements_def headings_def)
qed

lemma headings_md_youtube:
  "headings (md_youtube cs) = md_section ''YouTube'' (map channel_title cs)"
proof -
  have "headings (concat (map (\<lambda>c. H4 (channel_title c) # concat (map md_item (channel_items c))) cs)) =
      map H4 (map channel_title cs)"
    by (induction cs) (simp_all add: headings_def headings_items)
  then show ?thesis
    by (simp add: md_youtube_def md_section_def) (simp add: headings_def)
qed

lemma headings_md_blogs:
  "headings (md_blogs cs) = md_section ''AWS Blogs'' (map channel_title cs)"
proof -
  have "headings (concat (map (\<lambda>b. H4 (channel_title b) # Newline #
      concat (map md_item (channel_items b))) cs)) = map H4 (map channel_title cs)"
    by (induction cs) (simp_all add: headings_def headings_items)
  then show ?thesis
    by (simp add: md_blogs_def md_section_def) (simp add: headings_def)
qed

lemma headings_md_oss:
  "headings (md_oss rs) = md_section ''Open Source Project'' (map repo_title rs)"
proof -
  have "headings (concat (map (\<lambda>r. H4 (repo_title r) # concat (map md_item (repo_items r))) rs)) =
      map H4 (map repo_title rs)"
    by (induction rs) (simp_all add: headings_def headings_items)
  then show ?thesis
    by (simp add: md_oss_def md_section_def) (simp add: headings_def)
qed

lemma headings_mdBody:
  "headings (mdBody e lang fm txt data) =
     H3 (announcementsHeader lang) #
     md_section ''YouTube'' (map channel_title (youtube data)) @
     md_section ''AWS Blogs'' (map channel_title (blogs data)) @
     md_section ''Open Source Project'' (map repo_title (oss data))"
  unfolding mdBody_def headings_append headings_md_announcements headings_md_youtube
    headings_md_blogs headings_md_oss
  by (simp add: headings_def)

lemma md_section_Nil: "md_section name [] = []"
  by (simp add: md_section_def)


text \<open>
  The handler resolves when the oldest date of the window is a valid date and neither
  the translation service nor the put to S3 fails, whatever the feed parser does.
\<close>

lemma getFeed_resolves: "\<exists>feed w'. getFeed e feedUrl oldest latest w = (Inr feed, w')"
  by (cases "parseURL e feedUrl") (simp_all add: getFeed_def)

lemma await_resolves:
  assumes "\<And>w. \<exists>x w'. m w = (Inr x, w')"
    and "\<And>x w. \<exists>y w'. f x w = (Inr y, w')"
  shows "\<exists>y w'. await m f w = (Inr y, w')"
proof -
  from assms(1) obtain x w1 where "m w = (Inr x, w1)"
    by blast
  moreover from assms(2) obtain y w' where "f x w1 = (Inr y, w')"
    by blast
  ultimately show ?thesis
    by (auto simp: await_def)
qed

lemma for_await_resolves:
  assumes "\<And>x s w. \<exists>r w'. body x s w = (Inr r, w')"
  shows "\<exists>r w'. for_await body xs s w = (Inr r, w')"
proof (induction xs arbitrary: s w)
  case Nil
  show ?case by (simp add: resolve_def)
next
  case (Cons x xs)
  show ?case
    unfolding for_await.simps
    by (rule await_resolves) (use assms Cons.IH in blast)+
qed

lemma Promise_map_resolves:
  assumes "\<And>x. \<exists>y. f x = Inr y"
  shows "\<exists>ys. Promise_map first f xs = Inr ys"
proof -
  have "rejections (map f xs) = []"
  proof (induction xs)
    case Nil
    show ?case by simp
  next
    case (Cons x xs)
    from assms obtain y where "f x = Inr y"
      by blast
    with Cons.IH show ?case
      by simp
  qed
  then show ?thesis
    by (simp add: Promise_map_def)
qed

lemma translateTitles_resolves:
  assumes "\<And>text src tgt. \<exists>r. translateText e text src tgt = Inr r"
  shows "\<exists>out. translateTitles e src tgt items = Inr out"
  unfolding translateTitles_def
proof (rule Promise_map_resolves)
  fix item :: item
  from assms [of "item_title item" src tgt]
  show "\<exists>y. (case translate e (item_title item) src tgt of
            Inl err \<Rightarrow> Inl err
          | Inr t \<Rightarrow> Inr (item\<lparr>item_title := t\<rparr>)) = Inr y"
    by (auto simp: translate_def)
qed

lemma translateContentSnippets_resolves:
  assumes "\<And>text src tgt. \<exists>r. translateText e text src tgt = Inr r"
  shows "\<exists>out. translateContentSnippets e src tgt items = Inr out"
  unfolding translateContentSnippets_def
proof (rule Promise_map_resolves)
  fix item :: item
  from assms [of "item_contentSnippet item" src tgt]
  show "\<exists>y. (case translate e (item_contentSnippet item) src tgt of
            Inl err \<Rightarrow> Inl err
          | Inr t \<Rightarrow> Inr (item\<lparr>item_contentSnippet := t\<rparr>)) = Inr y"
    by (auto simp: translate_def)
qed

lemma settle_translation_resolves:
  assumes "\<exists>out. r = Inr out"
  shows "\<exists>x w'. settle r w = (Inr x, w')"
  using assms by (auto simp: settle_def)

lemma playlist_body_resolves:
  assumes "\<And>text src tgt. \<exists>r. translateText e text src tgt = Inr r"
  shows "\<exists>r w'. playlist_body e lang oldest latest p s w = (Inr r, w')"
  unfolding playlist_body_def
  by (rule await_resolves, rule getFeed_resolves)
    (auto simp: resolve_def intro!: await_resolves settle_translation_resolves
      translateTitles_resolves [OF assms])

lemma japanBlog_body_resolves:
  assumes "\<And>text src tgt. \<exists>r. translateText e text src tgt = Inr r"
  shows "\<exists>r w'. japanBlog_body e lang oldest latest p s w = (Inr r, w')"
  unfolding japanBlog_body_def
  by (rule await_resolves, rule getFeed_resolves)
    (auto simp: resolve_def intro!: await_resolves settle_translation_resolves
      translateTitles_resolves [OF assms])

lemma awsBlog_body_resolves:
  assumes "\<And>text src tgt. \<exists>r. translateText e text src tgt = Inr r"
  shows "\<exists>r w'. awsBlog_body e lang oldest latest p s w = (Inr r, w')"
  unfolding awsBlog_body_def
  by (rule await_resolves, rule getFeed_resolves)
    (auto simp: resolve_def intro!: await_resolves settle_translation_resolves
      translateTitles_resolves [OF assms])

lemma githubRepo_body_resolves:
  "\<exists>r w'. githubRepo_body e oldest latest p s w = (Inr r, w')"
  unfolding githubRepo_body_def
  by (rule await_resolves, rule getFeed_resolves) (auto simp: resolve_def)

lemma fetchAnnouncements_resolves:
  assumes "\<And>text src tgt. \<exists>r. translateText e text src tgt = Inr r"
  shows "\<exists>r w'. fetchAnnouncements e lang oldest latest w = (Inr r, w')"
proof -
  from getFeed_resolves obtain feed w1 where
    g: "getFeed e announcements_feedUrl oldest latest w = (Inr feed, w1)"
    by blast
  from translateContentSnippets_resolves [OF assms, of "''en''" lang "feed_items feed"]
  obtain items where
    t: "(if lang \<noteq> ''en'' then translateContentSnippets e ''en'' lang (feed_items feed)
         else Inr (feed_items feed)) = Inr items"
    by (cases "lang = ''en''") auto
  show ?thesis
    by (simp add: fetchAnnouncements_def await_def g t settle_def resolve_def)
qed

lemma collect_resolves:
  assumes "\<And>text src tgt. \<exists>r. translateText e text src tgt = Inr r"
  shows "\<exists>r w'. collect e lang oldest latest w = (Inr r, w')"
proof -
  from fetchAnnouncements_resolves [OF assms] obtain tags items w1 where
    a: "fetchAnnouncements e lang oldest latest w = (Inr (tags, items), w1)"
    by (metis prod.exhaust)
  from for_await_resolves [of "playlist_body e lang oldest latest", OF playlist_body_resolves [OF assms]]
  obtain yt w2 where
    y: "for_await (playlist_body e lang oldest latest) (youtube_playlists (config e)) [] w1 =
        (Inr yt, w2)"
    by blast
  from for_await_resolves [of "japanBlog_body e lang oldest latest", OF japanBlog_body_resolves [OF assms]]
  obtain jb w3 where
    j: "for_await (japanBlog_body e lang oldest latest) (awsJapanBlogs (config e)) [] w2 =
        (Inr jb, w3)"
    by blast
  from for_await_resolves [of "awsBlog_body e lang oldest latest", OF awsBlog_body_resolves [OF assms]]
  obtain bl w4 where
    b: "for_await (awsBlog_body e lang oldest latest) (awsBlogs (config e)) jb w3 =
        (Inr bl, w4)"
    by blast
  from for_await_resolves [of "githubRepo_body e oldest latest", OF githubRepo_body_resolves]
  obtain os w5 where
    g: "for_await (githubRepo_body e oldest latest) (githubRepos (config e)) [] w4 =
        (Inr os, w5)"
    by blast
  show ?thesis
    by (simp add: collect_def await_def a y j b g resolve_def)
qed

lemma handler_resolves:
  assumes "fst (pubDateWindow (newDate e (Some (event_time event)))) \<noteq> None"
    and "\<And>text src tgt. \<exists>r. translateText e text src tgt = Inr r"
    and "\<And>cmd. s3_putObject e cmd = None"
  shows "\<exists>payload w'. handler e event w = (Inr payload, w')"
proof -
  obtain oldest latest where
    win: "pubDateWindow (newDate e (Some (event_time event))) = (oldest, latest)"
    by (cases "pubDateWindow (newDate e (Some (event_time event)))")
  with assms(1) obtain tOld where old: "oldest = Some tOld"
    by auto
  from win old obtain executed where ex: "newDate e (Some (event_time event)) = Some executed"
    by (cases "newDate e (Some (event_time event))") (auto simp: pubDateWindow_invalid)
  from collect_resolves [OF assms(2)] obtain tags data w1 where
    "collect e (event_lang event) oldest latest w = (Inr (tags, data), w1)"
    by (metis prod.exhaust)
  moreover from win old ex have "pubDateWindow (Some executed) = (Some tOld, latest)"
    by simp
  ultimately show ?thesis
    by (simp add: handler_def assms(3) old ex await_def s3_send_def resolve_def Let_def)
qed

text \<open>The example runs resolve.\<close>

lemmas handler_defs =
  handler_def collect_def fetchAnnouncements_def playlist_body_def japanBlog_body_def
  awsBlog_body_def githubRepo_body_def getFeed_def inRange_def pubDateOf_def newDate_def
  TimeClip_def maxTime_def Date_greater_def Date_le_def Promise_map_def
  await_def resolve_def settle_def s3_send_def putObjectCommand_def mdBody_def
  md_announcements_def md_youtube_def md_blogs_def md_oss_def md_item_def
  frontMatter_init_def frontMatter_date_def getMetadata_def or_else_def
  objectKey_def urlPath_def articleTitle_def articleDescription_def pubDateRange_def
  announcementsHeader_def announcements_feedUrl_def playlist_feedUrl_def
  japanBlog_feedUrl_def awsBlog_feedUrl_def githubRepo_feedUrl_def
  playlistTitle_def japanBlogTitle_def pushProducts_def products_def products_prefix_def
  startsWith_def Array_from_Set_def Set_add_def translateTitles_def
  translateContentSnippets_def translate_def Let_def

lemmas example_defs =
  example_env_def example_event_def example_source_def
  example_old_def example_mid_def example_new_def example_undated_def

lemmas yields_defs =
  yields_def fetched_def getFeed_def inRange_def pubDateOf_def newDate_def TimeClip_def
  maxTime_def Date_greater_def Date_le_def md_section_def
  playlist_feedUrl_def japanBlog_feedUrl_def awsBlog_feedUrl_def githubRepo_feedUrl_def
  announcements_feedUrl_def announcementsHeader_def playlistTitle_def japanBlogTitle_def
  pubDateRange_def

lemma example_window:
  "pubDateWindow (Some 511200000) = (Some 432000000, Some 518400000)"
  by (simp add: pubDateWindow_def weekdayCorrection_def oldestPubDate_init_def
      latestPubDate_init_def getHours_def getMinutes_def getDay_def setHours0_def addDate_def
      TimeClip_def maxTime_def msPerDay_def)

lemma example_newDate: "newDate example_env (Some (event_time example_event)) = Some 511200000"
  by (simp add: newDate_def TimeClip_def maxTime_def example_env_def example_event_def)

lemma example_run_window:
  "pubDateWindow (newDate example_env (Some (event_time example_event))) =
     (Some 432000000, Some 518400000)"
  by (simp add: example_newDate example_window)

lemma example_run:
  "\<exists>payload w'. handler example_env example_event \<lparr>console = [], s3_sent = []\<rparr> =
     (Inr payload, w')"
  by (simp add: handler_defs example_window example_defs)

lemma example_quiet_run:
  "\<exists>payload w'. handler example_quiet_env example_event \<lparr>console = [], s3_sent = []\<rparr> =
     (Inr payload, w')"
  by (simp add: handler_defs example_window example_defs example_quiet_env_def)

lemma example_offline_run:
  "\<exists>payload w'. handler example_offline_env example_event \<lparr>console = [], s3_sent = []\<rparr> =
     (Inr payload, w')"
  by (simp add: handler_defs example_window example_defs example_offline_env_def)

text \<open>
  C6. \<^verbatim>\<open>getFeed\<close> never rejects. When fetching or parsing the feed fails, it
  resolves to a feed without items and writes the error to the console. So the handler
  resolves whatever the feed parser does, when the oldest date of the window is a valid
  date (otherwise its ISO string, the title of the article, cannot be made) and
  neither the translation service nor the put to S3 fails.
\<close>

theorem getFeed_never_rejects:
  "(\<exists>feed w'. getFeed e feedUrl oldest latest w = (Inr feed, w') \<and>
     (\<forall>err. parseURL e feedUrl = Inl err \<longrightarrow>
        feed = \<lparr>feed_title = ''error'', feed_items = []\<rparr> \<and>
        console w' = console w @ [err] \<and> s3_sent w' = s3_sent w) \<and>
     (\<forall>f. parseURL e feedUrl = Inr f \<longrightarrow> w' = w)) \<and>
   (fst (pubDateWindow (newDate e (Some (event_time event)))) \<noteq> None \<and>
    (\<forall>text src tgt. \<exists>r. translateText e text src tgt = Inr r) \<and>
    (\<forall>cmd. s3_putObject e cmd = None) \<longrightarrow>
    (\<forall>p. \<exists>payload v'. handler (e\<lparr>parseURL := p\<rparr>) event v = (Inr payload, v')))"
proof (intro conjI impI allI)
  show "\<exists>feed w'. getFeed e feedUrl oldest latest w = (Inr feed, w') \<and>
     (\<forall>err. parseURL e feedUrl = Inl err \<longrightarrow>
        feed = \<lparr>feed_title = ''error'', feed_items = []\<rparr> \<and>
        console w' = console w @ [err] \<and> s3_sent w' = s3_sent w) \<and>
     (\<forall>f. parseURL e feedUrl = Inr f \<longrightarrow> w' = w)"
    by (cases "parseURL e feedUrl") (simp_all add: getFeed_def)
next
  fix p
  assume a: "fst (pubDateWindow (newDate e (Some (event_time event)))) \<noteq> None \<and>
    (\<forall>text src tgt. \<exists>r. translateText e text src tgt = Inr r) \<and>
    (\<forall>cmd. s3_putObject e cmd = None)"
  then have "fst (pubDateWindow (newDate (e\<lparr>parseURL := p\<rparr>) (Some (event_time event)))) \<noteq> None"
    by (simp add: newDate_def)
  moreover from a have "\<And>text src tgt. \<exists>r. translateText (e\<lparr>parseURL := p\<rparr>) text src tgt = Inr r"
    by simp
  moreover from a have "\<And>cmd. s3_putObject (e\<lparr>parseURL := p\<rparr>) cmd = None"
    by simp
  ultimately show "\<exists>payload v'. handler (e\<lparr>parseURL := p\<rparr>) event v = (Inr payload, v')"
    by (rule handler_resolves)
qed

theorem getFeed_never_rejects_witness:
  "parseURL example_env ''https://github.com/aws/aws-cdk/releases.atom'' = Inl (Error ''Status code 404'') \<and>
   (\<exists>feed w'. getFeed example_env ''https://github.com/aws/aws-cdk/releases.atom''
        (Some 432000000) (Some 518400000)
        \<lparr>console = [], s3_sent = []\<rparr> = (Inr feed, w') \<and>
      feed_items feed = [] \<and> console w' = [Error ''Status code 404'']) \<and>
   (\<exists>payload v'.
      handler (example_env\<lparr>translateText := (\<lambda>text src tgt. Inr None),
                 parseURL := (\<lambda>url. Inl (Error ''Status code 404''))\<rparr>)
        (example_event\<lparr>event_lang := ''ja''\<rparr>) \<lparr>console = [], s3_sent = []\<rparr> = (Inr payload, v'))"
proof -
  let ?url = "''https://github.com/aws/aws-cdk/releases.atom''"
  let ?e = "example_env\<lparr>translateText := (\<lambda>text src tgt. Inr None)\<rparr>"
  let ?ev = "example_event\<lparr>event_lang := ''ja''\<rparr>"
  let ?w = "\<lparr>console = [], s3_sent = []\<rparr>"
  have p: "parseURL example_env ?url = Inl (Error ''Status code 404'')"
    by (simp add: example_env_def)
  have "newDate ?e (Some (event_time ?ev)) = Some 511200000"
    by (simp add: newDate_def TimeClip_def maxTime_def example_env_def example_event_def)
  then have h: "fst (pubDateWindow (newDate ?e (Some (event_time ?ev)))) \<noteq> None \<and>
    (\<forall>text src tgt. \<exists>r. translateText ?e text src tgt = Inr r) \<and>
    (\<forall>cmd. s3_putObject ?e cmd = None)"
    by (simp add: example_window) (simp add: example_env_def)
  have 1: "\<exists>feed w'. getFeed example_env ?url (Some 432000000) (Some 518400000) ?w = (Inr feed, w') \<and>
      feed_items feed = [] \<and> console w' = [Error ''Status code 404'']"
    using getFeed_never_rejects [of example_env ?url "Some 432000000" "Some 518400000" ?w,
        THEN conjunct1] p
    by auto
  have 2: "\<exists>payload v'.
      handler (?e\<lparr>parseURL := (\<lambda>url. Inl (Error ''Status code 404''))\<rparr>) ?ev ?w = (Inr payload, v')"
    using getFeed_never_rejects [of ?e ?url "Some 432000000" "Some 518400000" ?w ?ev ?w,
        THEN conjunct2] h
    by blast
  from p 1 2 show ?thesis
    by simp
qed

text \<open>
  C9. In the body the handler puts, every group has an item; the headings are the
  heading of the announcements, then, for the videos, the blogs and the open-source
  projects in this order, the heading of the section and the sub-headings of the
  groups whose feed has an item in the window, and nothing for a section without
  such a group. When no group has an item, the body ends with the announcements.
\<close>

theorem handler_sections:
  assumes "handler e event w = (Inr payload, w')"
    and "pubDateWindow (newDate e (Some (event_time event))) = (oldest, latest)"
  shows "\<exists>cmd fm data.
     s3_sent w' = s3_sent w @ [cmd] \<and>
     Body cmd = mdBody e (event_lang event) fm
       (pubDateRange e (event_lang event) oldest latest) data \<and>
     (\<forall>c \<in> set (youtube data) \<union> set (blogs data). channel_items c \<noteq> []) \<and>
     (\<forall>r \<in> set (oss data). repo_items r \<noteq> []) \<and>
     headings (Body cmd) =
       H3 (announcementsHeader (event_lang event)) #
       md_section ''YouTube''
         (map (playlistTitle (event_lang event))
           (filter (\<lambda>p. yields e oldest latest (playlist_feedUrl p))
             (youtube_playlists (config e)))) @
       md_section ''AWS Blogs''
         (map (japanBlogTitle (event_lang event))
            (filter (\<lambda>b. yields e oldest latest (japanBlog_feedUrl b))
              (awsJapanBlogs (config e))) @
          map (\<lambda>b. feed_title (fetched e (awsBlog_feedUrl b) oldest latest))
            (filter (\<lambda>b. yields e oldest latest (awsBlog_feedUrl b))
              (awsBlogs (config e)))) @
       md_section ''Open Source Project''
         (map githubRepo_title
           (filter (\<lambda>g. yields e oldest latest (githubRepo_feedUrl g))
             (githubRepos (config e)))) \<and>
     ((\<forall>p \<in> set (youtube_playlists (config e)). \<not> yields e oldest latest (playlist_feedUrl p)) \<and>
      (\<forall>b \<in> set (awsJapanBlogs (config e)). \<not> yields e oldest latest (japanBlog_feedUrl b)) \<and>
      (\<forall>b \<in> set (awsBlogs (config e)). \<not> yields e oldest latest (awsBlog_feedUrl b)) \<and>
      (\<forall>g \<in> set (githubRepos (config e)). \<not> yields e oldest latest (githubRepo_feedUrl g)) \<longrightarrow>
      Body cmd =
        [HeaderOrdered False, Text (JSON_stringify e fm), Newline,
         Text (pubDateRange e (event_lang event) oldest latest), Newline] @
        md_announcements (event_lang event) (announcements data))"
proof -
  from handler_Inr [OF assms] obtain tOld tags data w1 fm where
    c: "collect e (event_lang event) oldest latest w = (Inr (tags, data), w1)"
    and s: "s3_sent w' = s3_sent w1 @
        [putObjectCommand e (objectKey e (event_lang event) tOld) fm
           (mdBody e (event_lang event) fm
              (pubDateRange e (event_lang event) oldest latest) data)]"
    by blast
  note c' = collect_Inr [OF c, folded yields_def]
  let ?cmd = "putObjectCommand e (objectKey e (event_lang event) tOld) fm
           (mdBody e (event_lang event) fm
              (pubDateRange e (event_lang event) oldest latest) data)"
  have body: "Body ?cmd = mdBody e (event_lang event) fm
      (pubDateRange e (event_lang event) oldest latest) data"
    by (simp add: putObjectCommand_def)
  have sent: "s3_sent w' = s3_sent w @ [?cmd]"
    using s c'(1) by simp
  have nonempty: "\<forall>c \<in> set (youtube data) \<union> set (blogs data). channel_items c \<noteq> []"
    using c'(5) c'(7) by blast
  have heads: "headings (Body ?cmd) =
       H3 (announcementsHeader (event_lang event)) #
       md_section ''YouTube''
         (map (playlistTitle (event_lang event))
           (filter (\<lambda>p. yields e oldest latest (playlist_feedUrl p))
             (youtube_playlists (config e)))) @
       md_section ''AWS Blogs''
         (map (japanBlogTitle (event_lang event))
            (filter (\<lambda>b. yields e oldest latest (japanBlog_feedUrl b))
              (awsJapanBlogs (config e))) @
          map (\<lambda>b. feed_title (fetched e (awsBlog_feedUrl b) oldest latest))
            (filter (\<lambda>b. yields e oldest latest (awsBlog_feedUrl b))
              (awsBlogs (config e)))) @
       md_section ''Open Source Project''
         (map githubRepo_title
           (filter (\<lambda>g. yields e oldest latest (githubRepo_feedUrl g))
             (githubRepos (config e))))"
    unfolding body headings_mdBody c'(4) c'(6) c'(8) by (rule refl)
  have only: "Body ?cmd =
        [HeaderOrdered False, Text (JSON_stringify e fm), Newline,
         Text (pubDateRange e (event_lang event) oldest latest), Newline] @
        md_announcements (event_lang event) (announcements data)"
    if none: "(\<forall>p \<in> set (youtube_playlists (config e)). \<not> yields e oldest latest (playlist_feedUrl p)) \<and>
      (\<forall>b \<in> set (awsJapanBlogs (config e)). \<not> yields e oldest latest (japanBlog_feedUrl b)) \<and>
      (\<forall>b \<in> set (awsBlogs (config e)). \<not> yields e oldest latest (awsBlog_feedUrl b)) \<and>
      (\<forall>g \<in> set (githubRepos (config e)). \<not> yields e oldest latest (githubRepo_feedUrl g))"
  proof -
    have "filter (\<lambda>p. yields e oldest latest (playlist_feedUrl p)) (youtube_playlists (config e)) = []"
      "filter (\<lambda>b. yields e oldest latest (japanBlog_feedUrl b)) (awsJapanBlogs (config e)) = []"
      "filter (\<lambda>b. yields e oldest latest (awsBlog_feedUrl b)) (awsBlogs (config e)) = []"
      "filter (\<lambda>g. yields e oldest latest (githubRepo_feedUrl g)) (githubRepos (config e)) = []"
      using none by (simp_all add: filter_empty_conv)
    with c'(4) c'(6) c'(8) have "youtube data = []" "blogs data = []" "oss data = []"
      by simp_all
    then show ?thesis
      unfolding body by (simp add: mdBody_def md_youtube_def md_blogs_def md_oss_def)
  qed
  from sent body nonempty c'(9) heads only show ?thesis
    by blast
qed


theorem handler_sections_witness:
  "(\<exists>payload w' cmd.
      handler example_env example_event \<lparr>console = [], s3_sent = []\<rparr> = (Inr payload, w') \<and>
      s3_sent w' = [cmd] \<and>
      headings (Body cmd) = [H3 ''Recent Announcements'', H3 ''AWS Blogs'', H4 ''AWS News Blog'']) \<and>
   (\<exists>payload w' cmd fm (data :: contentData).
      handler example_quiet_env example_event \<lparr>console = [], s3_sent = []\<rparr> = (Inr payload, w') \<and>
      s3_sent w' = [cmd] \<and>
      Body cmd =
        [HeaderOrdered False, Text (JSON_stringify example_quiet_env fm), Newline,
         Text ''1/6/1970, 12:00:00 AM ~ 1/7/1970, 12:00:00 AM (UTC)'', Newline] @
        md_announcements ''en'' (announcements data))"
proof (rule conjI)
  from example_run obtain payload w' where
    run: "handler example_env example_event \<lparr>console = [], s3_sent = []\<rparr> = (Inr payload, w')"
    by blast
  have "\<exists>cmd. s3_sent w' = [cmd] \<and>
      headings (Body cmd) = [H3 ''Recent Announcements'', H3 ''AWS Blogs'', H4 ''AWS News Blog'']"
    using handler_sections [OF run example_run_window]
    by (elim exE conjE) (simp add: yields_defs example_defs)
  with run show "\<exists>payload w' cmd.
      handler example_env example_event \<lparr>console = [], s3_sent = []\<rparr> = (Inr payload, w') \<and>
      s3_sent w' = [cmd] \<and>
      headings (Body cmd) = [H3 ''Recent Announcements'', H3 ''AWS Blogs'', H4 ''AWS News Blog'']"
    by blast
next
  from example_quiet_run obtain payload w' where
    run: "handler example_quiet_env example_event \<lparr>console = [], s3_sent = []\<rparr> = (Inr payload, w')"
    by blast
  have win: "pubDateWindow (newDate example_quiet_env (Some (event_time example_event))) =
      (Some 432000000, Some 518400000)"
    using example_run_window by (simp add: newDate_def example_quiet_env_def)
  have none:
    "(\<forall>p \<in> set (youtube_playlists (config example_quiet_env)).
        \<not> yields example_quiet_env (Some 432000000) (Some 518400000) (playlist_feedUrl p)) \<and>
     (\<forall>b \<in> set (awsJapanBlogs (config example_quiet_env)).
        \<not> yields example_quiet_env (Some 432000000) (Some 518400000) (japanBlog_feedUrl b)) \<and>
     (\<forall>b \<in> set (awsBlogs (config example_quiet_env)).
        \<not> yields example_quiet_env (Some 432000000) (Some 518400000) (awsBlog_feedUrl b)) \<and>
     (\<forall>g \<in> set (githubRepos (config example_quiet_env)).
        \<not> yields example_quiet_env (Some 432000000) (Some 518400000) (githubRepo_feedUrl g))"
    by (simp add: yields_defs example_defs example_quiet_env_def)
  have rng: "pubDateRange example_quiet_env ''en'' (Some 432000000) (Some 518400000) =
      ''1/6/1970, 12:00:00 AM ~ 1/7/1970, 12:00:00 AM (UTC)''"
    by (simp add: pubDateRange_def example_defs example_quiet_env_def)
  have lang: "event_lang example_event = ''en''"
    by (simp add: example_event_def)
  have "\<exists>cmd fm (data :: contentData). s3_sent w' = [cmd] \<and>
      Body cmd =
        [HeaderOrdered False, Text (JSON_stringify example_quiet_env fm), Newline,
         Text ''1/6/1970, 12:00:00 AM ~ 1/7/1970, 12:00:00 AM (UTC)'', Newline] @
        md_announcements ''en'' (announcements data)"
    using handler_sections [OF run win]
  proof (elim exE conjE)
    fix cmd :: PutObjectCommand and fm :: frontMatter and data :: contentData
    assume sent: "s3_sent w' = s3_sent \<lparr>console = [], s3_sent = []\<rparr> @ [cmd]"
      and imp: "(\<forall>p \<in> set (youtube_playlists (config example_quiet_env)).
          \<not> yields example_quiet_env (Some 432000000) (Some 518400000) (playlist_feedUrl p)) \<and>
        (\<forall>b \<in> set (awsJapanBlogs (config example_quiet_env)).
          \<not> yields example_quiet_env (Some 432000000) (Some 518400000) (japanBlog_feedUrl b)) \<and>
        (\<forall>b \<in> set (awsBlogs (config example_quiet_env)).
          \<not> yields example_quiet_env (Some 432000000) (Some 518400000) (awsBlog_feedUrl b)) \<and>
        (\<forall>g \<in> set (githubRepos (config example_quiet_env)).
          \<not> yields example_quiet_env (Some 432000000) (Some 518400000) (githubRepo_feedUrl g)) \<longrightarrow>
        Body cmd =
          [HeaderOrdered False, Text (JSON_stringify example_quiet_env fm), Newline,
           Text (pubDateRange example_quiet_env (event_lang example_event) (Some 432000000) (Some 518400000)),
           Newline] @
          md_announcements (event_lang example_event) (announcements data)"
    from imp none have "Body cmd =
          [HeaderOrdered False, Text (JSON_stringify example_quiet_env fm), Newline,
           Text (pubDateRange example_quiet_env (event_lang example_event) (Some 432000000) (Some 518400000)),
           Newline] @
          md_announcements (event_lang example_event) (announcements data)"
      by (rule mp)
    then have "Body cmd =
          [HeaderOrdered False, Text (JSON_stringify example_quiet_env fm), Newline,
           Text ''1/6/1970, 12:00:00 AM ~ 1/7/1970, 12:00:00 AM (UTC)'', Newline] @
          md_announcements ''en'' (announcements data)"
      by (simp add: rng lang)
    moreover from sent have "s3_sent w' = [cmd]"
      by simp
    ultimately have both: "s3_sent w' = [cmd] \<and> Body cmd =
          [HeaderOrdered False, Text (JSON_stringify example_quiet_env fm), Newline,
           Text ''1/6/1970, 12:00:00 AM ~ 1/7/1970, 12:00:00 AM (UTC)'', Newline] @
          md_announcements ''en'' (announcements data)"
      by simp
    show ?thesis
      by (rule exI, rule exI, rule exI, rule both)
  qed
  with run show "\<exists>payload w' cmd fm (data :: contentData).
      handler example_quiet_env example_event \<lparr>console = [], s3_sent = []\<rparr> = (Inr payload, w') \<and>
      s3_sent w' = [cmd] \<and>
      Body cmd =
        [HeaderOrdered False, Text (JSON_stringify example_quiet_env fm), Newline,
         Text ''1/6/1970, 12:00:00 AM ~ 1/7/1970, 12:00:00 AM (UTC)'', Newline] @
        md_announcements ''en'' (announcements data)"
    by blast
qed

text \<open>
  C10. The body always has the heading of the announcements, right after the front
  matter and the window; when the announcement feed has no item in the window, the
  text \<^verbatim>\<open>No updates.\<close> follows the heading.
\<close>

theorem handler_announcements_always:
  assumes "handler e event w = (Inr payload, w')"
    and "pubDateWindow (newDate e (Some (event_time event))) = (oldest, latest)"
  shows "\<exists>cmd fm.
     s3_sent w' = s3_sent w @ [cmd] \<and>
     take 6 (Body cmd) =
       [HeaderOrdered False, Text (JSON_stringify e fm), Newline,
        Text (pubDateRange e (event_lang event) oldest latest), Newline,
        H3 (announcementsHeader (event_lang event))] \<and>
     (feed_items (fetched e announcements_feedUrl oldest latest) = [] \<longrightarrow>
        take 2 (drop 6 (Body cmd)) = [Text ''No updates.'', Newline])"
proof -
  from handler_Inr [OF assms] obtain tOld tags data w1 fm where
    c: "collect e (event_lang event) oldest latest w = (Inr (tags, data), w1)"
    and s: "s3_sent w' = s3_sent w1 @
        [putObjectCommand e (objectKey e (event_lang event) tOld) fm
           (mdBody e (event_lang event) fm
              (pubDateRange e (event_lang event) oldest latest) data)]"
    by blast
  note c' = collect_Inr [OF c]
  let ?cmd = "putObjectCommand e (objectKey e (event_lang event) tOld) fm
           (mdBody e (event_lang event) fm
              (pubDateRange e (event_lang event) oldest latest) data)"
  have sent: "s3_sent w' = s3_sent w @ [?cmd]"
    using s c'(1) by simp
  have head: "take 6 (Body ?cmd) =
       [HeaderOrdered False, Text (JSON_stringify e fm), Newline,
        Text (pubDateRange e (event_lang event) oldest latest), Newline,
        H3 (announcementsHeader (event_lang event))]"
    by (simp add: putObjectCommand_def mdBody_def md_announcements_def)
  have none: "take 2 (drop 6 (Body ?cmd)) = [Text ''No updates.'', Newline]"
    if "feed_items (fetched e announcements_feedUrl oldest latest) = []"
    using that c'(2) by (simp add: putObjectCommand_def mdBody_def md_announcements_def)
  from sent head none show ?thesis
    by blast
qed

theorem handler_announcements_always_witness:
  "feed_items (fetched example_offline_env announcements_feedUrl (Some 432000000) (Some 518400000)) = [] \<and>
   (\<exists>payload w' cmd fm.
      handler example_offline_env example_event \<lparr>console = [], s3_sent = []\<rparr> = (Inr payload, w') \<and>
      s3_sent w' = [cmd] \<and>
      take 6 (Body cmd) =
        [HeaderOrdered False, Text (JSON_stringify example_offline_env fm), Newline,
         Text ''1/6/1970, 12:00:00 AM ~ 1/7/1970, 12:00:00 AM (UTC)'', Newline,
         H3 ''Recent Announcements''] \<and>
      take 2 (drop 6 (Body cmd)) = [Text ''No updates.'', Newline])"
proof -
  from example_offline_run obtain payload w' where
    run: "handler example_offline_env example_event \<lparr>console = [], s3_sent = []\<rparr> = (Inr payload, w')"
    by blast
  have win: "pubDateWindow (newDate example_offline_env (Some (event_time example_event))) =
      (Some 432000000, Some 518400000)"
    using example_run_window by (simp add: newDate_def example_offline_env_def)
  have none: "feed_items (fetched example_offline_env announcements_feedUrl (Some 432000000) (Some 518400000)) = []"
    by (simp add: fetched_def getFeed_def example_offline_env_def)
  have rng: "pubDateRange example_offline_env (event_lang example_event) (Some 432000000) (Some 518400000) =
      ''1/6/1970, 12:00:00 AM ~ 1/7/1970, 12:00:00 AM (UTC)''"
    by (simp add: pubDateRange_def example_defs example_offline_env_def)
  have hdr: "announcementsHeader (event_lang example_event) = ''Recent Announcements''"
    by (simp add: announcementsHeader_def example_event_def)
  have "\<exists>cmd fm. s3_sent w' = [cmd] \<and>
      take 6 (Body cmd) =
        [HeaderOrdered False, Text (JSON_stringify example_offline_env fm), Newline,
         Text ''1/6/1970, 12:00:00 AM ~ 1/7/1970, 12:00:00 AM (UTC)'', Newline,
         H3 ''Recent Announcements''] \<and>
      take 2 (drop 6 (Body cmd)) = [Text ''No updates.'', Newline]"
    using handler_announcements_always [OF run win] none
    unfolding rng hdr by auto
  with run none show ?thesis
    by blast
qed



text \<open>
  At the end of the range of \<^verbatim>\<open>Date\<close> the handler resolves with an invalid
  \<open>latestPubDate\<close>: the window text says so and no item is in the window.
\<close>

lemma handler_at_end_of_range:
  "\<exists>payload w' cmd.
     handler example_env (example_event\<lparr>event_time := ''+275760-09-13T00:00:00.000Z''\<rparr>)
       \<lparr>console = [], s3_sent = []\<rparr> = (Inr payload, w') \<and>
     payload_pubDateRange payload = ''9/12/275760, 12:00:00 AM ~ Invalid Date (UTC)'' \<and>
     s3_sent w' = [cmd] \<and>
     drop 5 (Body cmd) = [H3 ''Recent Announcements'', Text ''No updates.'', Newline]"
proof -
  have "pubDateWindow (Some 8640000000000000) = (Some 8639999913600000, None)"
    by (simp add: pubDateWindow_def weekdayCorrection_def oldestPubDate_init_def
        latestPubDate_init_def getHours_def getMinutes_def getDay_def setHours0_def addDate_def
        TimeClip_def maxTime_def msPerDay_def)
  then show ?thesis
    by (simp add: handler_defs example_defs)
qed

end
